(* ===== verification/Prelude.thy ===== *)
theory Prelude
  imports Complex_Main
begin

text \<open>
  Shared vocabulary of the development: the simp collections the component theories
  fill, decimal rendering of natural numbers (used by every text the bot prints),
  Python's \<open>str.join\<close>, and generic lemmas on sliding windows of lists, which the
  rolling-window indicator of \<open>src/bot.py\<close> is built from.
\<close>

named_theorems series_simps "characteristic equations of the pandas Series operations"
named_theorems render_simps "equations for the text rendering of values"

subsection \<open>Python exceptions\<close>

text \<open>
  The exceptions the program can raise or catch, each with the text \<open>str(e)\<close> gives,
  which \<open>fetch_data\<close> prints. \<open>KeyError\<close> holds the \<open>repr\<close> of the missing key;
  \<open>ClientError\<close> stands for every failure of an HTTP request or of decoding its body
  (aiohttp's \<open>ClientError\<close>, \<open>ContentTypeError\<close>, JSON decode errors) and
  \<open>TelegramError\<close> for a failed \<open>send_message\<close>; their texts come from the environment.
\<close>

datatype py_exc =
    KeyError string
  | IndexError string
  | TypeError string
  | ValueError string
  | OverflowError string
  | OutOfBoundsDatetime string
  | ClientError string
  | TelegramError string

primrec exc_str :: "py_exc \<Rightarrow> string" where
  "exc_str (KeyError r) = r"
| "exc_str (IndexError m) = m"
| "exc_str (TypeError m) = m"
| "exc_str (ValueError m) = m"
| "exc_str (OverflowError m) = m"
| "exc_str (OutOfBoundsDatetime m) = m"
| "exc_str (ClientError m) = m"
| "exc_str (TelegramError m) = m"

text \<open>
  The observable effects of the process, in the order they happen: a line on standard
  output (\<open>print\<close>), a text delivered to the chat (\<open>send_message\<close> returned), a reply
  to a chat command, a sleep of the scheduler (seconds).
\<close>

datatype event = Print string | Sent string | Reply string | Sleep nat

text \<open>Python's \<open>d[k] = v\<close> on a dict kept as an association list in insertion order.\<close>

definition dict_set :: "('k \<times> 'v) list \<Rightarrow> 'k \<Rightarrow> 'v \<Rightarrow> ('k \<times> 'v) list" where
  "dict_set kvs k v = (if k \<in> fst ` set kvs then map (\<lambda>(k', v'). if k' = k then (k', v) else (k', v')) kvs
                       else kvs @ [(k, v)])"

text \<open>Sequencing of statements that may raise: the first exception propagates.\<close>

definition ebind :: "py_exc + 'a \<Rightarrow> ('a \<Rightarrow> py_exc + 'b) \<Rightarrow> py_exc + 'b" where
  "ebind m f = (case m of Inl e \<Rightarrow> Inl e | Inr x \<Rightarrow> f x)"

text \<open>A list comprehension whose element expression may raise, evaluated left to right.\<close>

fun emap :: "('a \<Rightarrow> py_exc + 'b) \<Rightarrow> 'a list \<Rightarrow> py_exc + 'b list" where
  "emap f [] = Inr []"
| "emap f (x # xs) = ebind (f x) (\<lambda>y. ebind (emap f xs) (\<lambda>ys. Inr (y # ys)))"

subsection \<open>Decimal digits\<close>

definition digit_char :: "nat \<Rightarrow> char" where
  "digit_char d = ''0123456789'' ! d"

fun nat_digits :: "nat \<Rightarrow> string" where
  "nat_digits n = (if n < 10 then [digit_char n] else nat_digits (n div 10) @ [digit_char (n mod 10)])"

declare nat_digits.simps [simp del]

text \<open>Left padding with zeros, as the format spec \<open>02d\<close> or the fraction digits of \<open>.Nf\<close>.\<close>

definition pad_zeros :: "nat \<Rightarrow> string \<Rightarrow> string" where
  "pad_zeros k s = replicate (k - length s) (CHR ''0'') @ s"

text \<open>Python's \<open>str(int)\<close>.\<close>

definition int_str :: "int \<Rightarrow> string" where
  "int_str i = (if i < 0 then CHR ''-'' # nat_digits (nat (- i)) else nat_digits (nat i))"

text \<open>The inverse direction: the value of a string of decimal digits.\<close>

definition char_digit :: "char \<Rightarrow> nat option" where
  "char_digit c = (let k = of_char c :: nat in if 48 \<le> k \<and> k < 58 then Some (k - 48) else None)"

fun digits_value :: "nat \<Rightarrow> string \<Rightarrow> nat option" where
  "digits_value acc [] = Some acc"
| "digits_value acc (c # cs) =
     (case char_digit c of None \<Rightarrow> None | Some d \<Rightarrow> digits_value (10 * acc + d) cs)"

text \<open>Python's \<open>sep.join(xs)\<close>.\<close>

fun join_str :: "string \<Rightarrow> string list \<Rightarrow> string" where
  "join_str sep [] = []"
| "join_str sep [x] = x"
| "join_str sep (x # y # ys) = x @ sep @ join_str sep (y # ys)"

subsection \<open>Splitting at a separator\<close>

text \<open>\<open>s.split(c)\<close>: the pieces between the occurrences of \<open>c\<close>, empty pieces included.\<close>

fun split_on :: "'a \<Rightarrow> 'a list \<Rightarrow> 'a list list" where
  "split_on c [] = [[]]"
| "split_on c (x # xs) =
     (if x = c then [] # split_on c xs else (case split_on c xs of w # ws \<Rightarrow> (x # w) # ws | [] \<Rightarrow> [[x]]))"

subsection \<open>Sliding windows\<close>

text \<open>The window of \<open>w\<close> entries ending at index \<open>i\<close> (inclusive), as pandas' \<open>rolling(window=w)\<close> sees it.\<close>

definition window :: "nat \<Rightarrow> nat \<Rightarrow> 'a list \<Rightarrow> 'a list" where
  "window w i xs = take w (drop (Suc i - w) xs)"

subsection \<open>Lemmas on digits\<close>

lemma char_digit_digit_char [simp]: "d < 10 \<Longrightarrow> char_digit (digit_char d) = Some d"
  by (simp add: digit_char_def char_digit_def less_Suc_eq numeral_eq_Suc)
     (elim disjE; simp)

lemma digits_value_append:
  "digits_value acc (xs @ ys) = (case digits_value acc xs of None \<Rightarrow> None | Some a \<Rightarrow> digits_value a ys)"
  by (induction acc xs rule: digits_value.induct) (auto split: option.splits)

lemma digits_value_nat_digits [simp]: "digits_value 0 (nat_digits n) = Some n"
proof (induction n rule: nat_digits.induct)
  case (1 n)
  show ?case
  proof (cases "n < 10")
    case True
    then show ?thesis by (simp add: nat_digits.simps [of n])
  next
    case False
    with "1.IH" show ?thesis
      by (simp add: nat_digits.simps [of n] digits_value_append)
  qed
qed

text \<open>Guarded unfolding of \<open>nat_digits\<close>: the simplifier decides the guard on a numeral
  before it unfolds, so concrete renderings evaluate without looping.\<close>

lemma nat_digits_small [render_simps]: "n < 10 \<Longrightarrow> nat_digits n = [digit_char n]"
  by (simp add: nat_digits.simps)

lemma nat_digits_large [render_simps]:
  "\<not> n < 10 \<Longrightarrow> nat_digits n = nat_digits (n div 10) @ [digit_char (n mod 10)]"
  by (subst nat_digits.simps) simp

lemma replicate_numeral_unfold [render_simps]:
  "replicate (numeral k) x = x # replicate (pred_numeral k) x"
  by (simp add: numeral_eq_Suc)

declare digit_char_def [render_simps] pad_zeros_def [render_simps]

lemma nat_digits_not_Nil [simp]: "nat_digits n \<noteq> []"
  by (subst nat_digits.simps) simp

lemma set_nat_digits: "set (nat_digits n) \<subseteq> set ''0123456789''"
proof (induction n rule: nat_digits.induct)
  case (1 n)
  have "digit_char k \<in> set ''0123456789''" if "k < 10" for k
    using that unfolding digit_char_def by (intro nth_mem) simp
  with "1.IH" show ?case
    by (subst nat_digits.simps) auto
qed

lemma length_pad_zeros: "length (pad_zeros k s) = max k (length s)"
  by (simp add: pad_zeros_def)

subsection \<open>Lemmas on sliding windows\<close>

lemma length_window: "w \<le> Suc i \<Longrightarrow> i < length xs \<Longrightarrow> length (window w i xs) = w"
  by (simp add: window_def)

lemma nth_window: "w \<le> Suc i \<Longrightarrow> i < length xs \<Longrightarrow> k < w \<Longrightarrow> window w i xs ! k = xs ! (Suc i - w + k)"
  by (simp add: window_def)

lemma set_window: "w \<le> Suc i \<Longrightarrow> i < length xs \<Longrightarrow>
    set (window w i xs) = {xs ! j | j. Suc i - w \<le> j \<and> j \<le> i}"
proof -
  assume a: "w \<le> Suc i" "i < length xs"
  have "set (window w i xs) = {window w i xs ! k | k. k < w}"
    using a by (auto simp: in_set_conv_nth length_window)
  also have "\<dots> = {xs ! j | j. Suc i - w \<le> j \<and> j \<le> i}"
  proof (intro set_eqI iffI)
    fix x assume "x \<in> {window w i xs ! k | k. k < w}"
    then obtain k where "k < w" "x = window w i xs ! k" by blast
    with a show "x \<in> {xs ! j | j. Suc i - w \<le> j \<and> j \<le> i}"
      by (simp add: nth_window) (rule exI [of _ "Suc i - w + k"], auto)
  next
    fix x assume "x \<in> {xs ! j | j. Suc i - w \<le> j \<and> j \<le> i}"
    then obtain j where j: "Suc i - w \<le> j" "j \<le> i" "x = xs ! j" by blast
    with a have "x = window w i xs ! (j - (Suc i - w))" "j - (Suc i - w) < w"
      by (simp_all add: nth_window)
    then show "x \<in> {window w i xs ! k | k. k < w}" by blast
  qed
  finally show ?thesis .
qed

lemma window_map: "window w i (map f xs) = map f (window w i xs)"
  by (simp add: window_def take_map drop_map)

text \<open>A window only sees the suffix of the list that starts where the window starts.\<close>

lemma window_drop:
  assumes "j \<le> Suc i - w" and "j \<le> i"
  shows "window w (i - j) (drop j xs) = window w i xs"
proof -
  from assms have "Suc (i - j) - w + j = Suc i - w" by arith
  then show ?thesis by (simp only: window_def drop_drop)
qed

subsection \<open>Lemmas on lists\<close>

lemma remdups_snoc: "remdups (xs @ [k]) = removeAll k (remdups xs) @ [k]"
  by (induction xs) auto

lemma split_on_append: "c \<notin> set xs \<Longrightarrow> split_on c (xs @ c # ys) = xs # split_on c ys"
  by (induction xs) auto

lemma split_on_no_sep: "c \<notin> set xs \<Longrightarrow> split_on c xs = [xs]"
  by (induction xs) auto

subsection \<open>Lemmas on exceptions\<close>

lemma ebind_simps [simp]: "ebind (Inl e) f = Inl e" "ebind (Inr x) f = f x"
  by (simp_all add: ebind_def)

lemma ebind_Inr_iff: "ebind m f = Inr y \<longleftrightarrow> (\<exists>x. m = Inr x \<and> f x = Inr y)"
  by (cases m) simp_all

lemma emap_Inr_iff: "emap f xs = Inr ys \<longleftrightarrow> list_all2 (\<lambda>x y. f x = Inr y) xs ys"
proof (induction xs arbitrary: ys)
  case Nil
  then show ?case by auto
next
  case (Cons x xs)
  then show ?case
    by (cases ys) (auto simp: ebind_Inr_iff)
qed

lemma emap_map_Inr [simp]: "emap (\<lambda>x. Inr (g x)) xs = Inr (map g xs)"
  by (induction xs) simp_all

end
