(* ===== verification/PyFloat.thy ===== *)
theory PyFloat
  imports Prelude
begin

text \<open>
  Python and numpy floats as the bot uses them: a finite value, one of the two infinities,
  or NaN. Finite values are exact reals: the rounding of binary64 arithmetic is not
  modelled, but every special value the IEEE rules produce (division by zero, \<open>inf - inf\<close>,
  NaN propagation, comparisons with NaN that are false) is. Signed zero is not modelled:
  a zero divisor counts as \<open>+0.0\<close>, which is the zero pandas' rolling mean returns for a
  window of non-negative entries. This theory also holds Python's fixed-point formatting
  \<open>format(x, '.Nf')\<close>, used by the report text (\<open>{fr:.4f}\<close>, \<open>{v:.2f}\<close>).
\<close>

datatype pyfloat = Fin real | PInf | NInf | NaN

subsection \<open>Arithmetic\<close>

fun f_neg :: "pyfloat \<Rightarrow> pyfloat" where
  "f_neg (Fin a) = Fin (- a)"
| "f_neg PInf = NInf"
| "f_neg NInf = PInf"
| "f_neg NaN = NaN"

fun f_add :: "pyfloat \<Rightarrow> pyfloat \<Rightarrow> pyfloat" where
  "f_add NaN _ = NaN"
| "f_add _ NaN = NaN"
| "f_add PInf NInf = NaN"
| "f_add NInf PInf = NaN"
| "f_add PInf _ = PInf"
| "f_add NInf _ = NInf"
| "f_add _ PInf = PInf"
| "f_add _ NInf = NInf"
| "f_add (Fin a) (Fin b) = Fin (a + b)"

definition f_sub :: "pyfloat \<Rightarrow> pyfloat \<Rightarrow> pyfloat" where
  "f_sub x y = f_add x (f_neg y)"

text \<open>The sign of an infinite result: positive, negative, or NaN for a zero factor.\<close>

definition inf_times :: "bool \<Rightarrow> real \<Rightarrow> pyfloat" where
  "inf_times pos b = (if b = 0 then NaN else if (0 < b) = pos then PInf else NInf)"

fun f_mul :: "pyfloat \<Rightarrow> pyfloat \<Rightarrow> pyfloat" where
  "f_mul NaN _ = NaN"
| "f_mul _ NaN = NaN"
| "f_mul (Fin a) (Fin b) = Fin (a * b)"
| "f_mul PInf (Fin b) = inf_times True b"
| "f_mul NInf (Fin b) = inf_times False b"
| "f_mul (Fin a) PInf = inf_times True a"
| "f_mul (Fin a) NInf = inf_times False a"
| "f_mul PInf PInf = PInf"
| "f_mul NInf NInf = PInf"
| "f_mul _ _ = NInf"

fun f_div :: "pyfloat \<Rightarrow> pyfloat \<Rightarrow> pyfloat" where
  "f_div NaN _ = NaN"
| "f_div _ NaN = NaN"
| "f_div (Fin a) (Fin b) =
     (if b = 0 then (if a = 0 then NaN else if 0 < a then PInf else NInf) else Fin (a / b))"
| "f_div (Fin a) _ = Fin 0"
| "f_div PInf (Fin b) = (if b < 0 then NInf else PInf)"
| "f_div NInf (Fin b) = (if b < 0 then PInf else NInf)"
| "f_div _ _ = NaN"

subsection \<open>Comparisons\<close>

text \<open>Python's \<open><\<close> on floats: false whenever NaN is involved.\<close>

fun f_less :: "pyfloat \<Rightarrow> pyfloat \<Rightarrow> bool" where
  "f_less NaN _ = False"
| "f_less _ NaN = False"
| "f_less (Fin a) (Fin b) = (a < b)"
| "f_less NInf y = (y \<noteq> NInf)"
| "f_less x PInf = (x \<noteq> PInf)"
| "f_less _ _ = False"

definition is_nan :: "pyfloat \<Rightarrow> bool" where
  "is_nan x = (x = NaN)"

subsection \<open>Fixed-point formatting\<close>

text \<open>
  \<open>format(x, '.Nf')\<close>: \<open>nan\<close>, \<open>inf\<close>, \<open>-inf\<close> for the special values; otherwise
  the sign of the value, then the value's magnitude rounded to \<open>N\<close> decimals with ties to
  even (CPython rounds the exact value of its argument correctly), with at least one
  integer digit and exactly \<open>N\<close> fraction digits. A negative value that rounds to zero
  keeps its sign (\<open>-0.001\<close> gives \<open>-0.00\<close>).
\<close>

definition round_half_even :: "real \<Rightarrow> nat" where
  "round_half_even x =
     (let f = \<lfloor>x\<rfloor>; r = x - of_int f
      in nat (if r < 1/2 then f else if 1/2 < r then f + 1 else if even f then f else f + 1))"

definition fixed_digits :: "nat \<Rightarrow> real \<Rightarrow> string" where
  "fixed_digits n a =
     (let m = round_half_even (a * 10 ^ n); ip = m div 10 ^ n; fp = m mod 10 ^ n
      in if n = 0 then nat_digits ip else nat_digits ip @ CHR ''.'' # pad_zeros n (nat_digits fp))"

fun format_fixed :: "nat \<Rightarrow> pyfloat \<Rightarrow> string" where
  "format_fixed n NaN = ''nan''"
| "format_fixed n PInf = ''inf''"
| "format_fixed n NInf = ''-inf''"
| "format_fixed n (Fin a) = (if a < 0 then CHR ''-'' # fixed_digits n (- a) else fixed_digits n a)"

subsection \<open>Lemmas\<close>

lemma f_less_NaN [simp]: "\<not> f_less x NaN" "\<not> f_less NaN x"
  by (cases x; simp)+

lemma f_add_Fin_iff: "f_add x y = Fin c \<longleftrightarrow> (\<exists>a b. x = Fin a \<and> y = Fin b \<and> c = a + b)"
  by (cases x; cases y; auto)

lemma f_sub_Fin [simp]: "f_sub (Fin a) (Fin b) = Fin (a - b)"
  by (simp add: f_sub_def)

lemma f_sub_NaN [simp]: "f_sub NaN x = NaN" "f_sub x NaN = NaN"
  by (cases x; simp add: f_sub_def)+

lemma f_div_NaN_right [simp]: "f_div x NaN = NaN"
  by (cases x) simp_all

lemma round_half_even_bound:
  assumes "0 \<le> x" shows "\<bar>real (round_half_even x) - x\<bar> \<le> 1/2"
proof -
  let ?f = "\<lfloor>x\<rfloor>"
  have f0: "0 \<le> ?f" using assms by simp
  have fl: "of_int ?f \<le> x" "x < of_int ?f + 1" by linarith+
  show ?thesis
    using f0 fl unfolding round_half_even_def Let_def by (auto split: if_splits)
qed

end
