(* ===== verification/RSI.thy ===== *)
theory RSI
  imports PyFloat
begin

text \<open>
  The indicator calculator, \<open>calculate_rsi\<close> of \<open>src/bot.py\<close> (lines 36-43), as the
  composition of the pandas Series operations it calls: \<open>diff\<close>, \<open>clip\<close>, unary minus,
  \<open>rolling(window=period).mean()\<close> and element-wise arithmetic. A Series is the list of
  its values (the bot only builds Series with the default range index). The theory also
  holds the reference definition of the indicator written from the formula of the
  specification, and proves that the pandas pipeline computes it: the warm-up region, the
  value on every defined index, its bounds, and the boundary cases of a window without
  losses (saturation to 100 when prices rose, NaN when they did not move).
\<close>

subsection \<open>pandas Series operations\<close>

text \<open>\<open>Series.diff()\<close>: entry \<open>i\<close> is \<open>x[i] - x[i-1]\<close>, the first entry is NaN.\<close>

definition series_diff :: "pyfloat list \<Rightarrow> pyfloat list" where
  "series_diff xs = (case xs of [] \<Rightarrow> [] | _ # ys \<Rightarrow> NaN # map2 (\<lambda>prev cur. f_sub cur prev) xs ys)"

text \<open>\<open>Series.clip(lower=lo)\<close> and \<open>Series.clip(upper=hi)\<close>, element-wise; NaN stays NaN.\<close>

definition clip_lower :: "real \<Rightarrow> pyfloat \<Rightarrow> pyfloat" where
  "clip_lower lo x = (if x = NaN then NaN else if f_less x (Fin lo) then Fin lo else x)"

definition clip_upper :: "real \<Rightarrow> pyfloat \<Rightarrow> pyfloat" where
  "clip_upper hi x = (if x = NaN then NaN else if f_less (Fin hi) x then Fin hi else x)"

text \<open>
  The mean of one full window: pandas' default \<open>min_periods\<close> equals the window size, so a
  window holding a NaN has too few observations and its mean is NaN.
\<close>

definition window_mean :: "nat \<Rightarrow> pyfloat list \<Rightarrow> pyfloat" where
  "window_mean w ws = (if NaN \<in> set ws then NaN else f_div (foldl f_add (Fin 0) ws) (Fin (real w)))"

text \<open>\<open>Series.rolling(window=w).mean()\<close>: NaN until a full window is available.\<close>

definition rolling_mean :: "nat \<Rightarrow> pyfloat list \<Rightarrow> pyfloat list" where
  "rolling_mean w xs =
     map (\<lambda>i. if Suc i < w then NaN else window_mean w (window w i xs)) [0..<length xs]"

subsection \<open>The indicator\<close>

definition RSI_PERIOD :: nat where
  "RSI_PERIOD = 14"

text \<open>\<open>100 - (100 / (1 + rs))\<close>, element-wise.\<close>

definition rsi_of_rs :: "pyfloat \<Rightarrow> pyfloat" where
  "rsi_of_rs rs = f_sub (Fin 100) (f_div (Fin 100) (f_add (Fin 1) rs))"

definition calculate_rsi :: "pyfloat list \<Rightarrow> nat \<Rightarrow> pyfloat list" where
  "calculate_rsi series period =
     (let delta = series_diff series;
          gain = map (clip_lower 0) delta;
          loss = map f_neg (map (clip_upper 0) delta);
          avg_gain = rolling_mean period gain;
          avg_loss = rolling_mean period loss;
          rs = map2 f_div avg_gain avg_loss
      in map rsi_of_rs rs)"

text \<open>\<open>Series.iloc[-1]\<close>: the last entry, \<open>IndexError\<close> on an empty Series.\<close>

definition iloc_last :: "'a list \<Rightarrow> py_exc + 'a" where
  "iloc_last xs = (if xs = [] then Inl (IndexError ''single positional indexer is out-of-bounds'') else Inr (last xs))"

subsection \<open>The specification's formula\<close>

text \<open>
  Entry \<open>i\<close> of the indicator of a price sequence, as the specification states it: undefined
  (NaN) below index \<open>period\<close>; otherwise the window means of the gains and of the absolute
  losses among the deltas \<open>p[j] - p[j-1]\<close> for the \<open>period\<close> indices \<open>j\<close> ending at
  \<open>i\<close>, combined as \<open>100 - 100 / (1 + G/L)\<close>. A window without losses gives 100 if it has
  a gain and is undefined if it has none.
\<close>

definition rsi_formula :: "real \<Rightarrow> real \<Rightarrow> pyfloat" where
  "rsi_formula g l = (if l = 0 then (if g = 0 then NaN else Fin 100) else Fin (100 - 100 / (1 + g / l)))"

definition rsi_ref :: "real list \<Rightarrow> nat \<Rightarrow> nat \<Rightarrow> pyfloat" where
  "rsi_ref ps period i =
     (if i < period then NaN else
      let ds = map (\<lambda>j. ps ! j - ps ! (j - 1)) [Suc i - period..<Suc i]
      in rsi_formula (sum_list (map (\<lambda>d. max d 0) ds) / real period)
                     (sum_list (map (\<lambda>d. max (- d) 0) ds) / real period))"

subsection \<open>Pointwise behaviour of the pipeline\<close>

text \<open>The definitions to unfold when the indicator is evaluated on a concrete Series.\<close>

lemmas rsi_eval_simps = calculate_rsi_def series_diff_def rolling_mean_def window_def
  window_mean_def rsi_of_rs_def clip_lower_def clip_upper_def f_sub_def upt_rec


lemma length_series_diff [simp]: "length (series_diff xs) = length xs"
  by (simp add: series_diff_def split: list.split)

lemma nth_series_diff:
  "i < length xs \<Longrightarrow> series_diff xs ! i = (if i = 0 then NaN else f_sub (xs ! i) (xs ! (i - 1)))"
  by (cases xs) (auto simp: series_diff_def nth_Cons' nth_tl)

lemma length_rolling_mean [simp]: "length (rolling_mean w xs) = length xs"
  by (simp add: rolling_mean_def)

lemma nth_rolling_mean:
  "i < length xs \<Longrightarrow>
   rolling_mean w xs ! i = (if Suc i < w then NaN else window_mean w (window w i xs))"
  by (simp add: rolling_mean_def)

lemma clip_lower_Fin [simp]: "clip_lower lo (Fin a) = Fin (max a lo)"
  by (simp add: clip_lower_def max_def)

lemma clip_upper_Fin [simp]: "clip_upper hi (Fin a) = Fin (min a hi)"
  by (simp add: clip_upper_def min_def)

lemma clip_NaN [simp]: "clip_lower lo NaN = NaN" "clip_upper hi NaN = NaN"
  by (simp_all add: clip_lower_def clip_upper_def)

lemma foldl_f_add_Fin: "foldl f_add (Fin a) (map Fin zs) = Fin (a + sum_list zs)"
  by (induction zs arbitrary: a) (simp_all add: add.assoc)

lemma window_mean_Fin:
  "0 < w \<Longrightarrow> window_mean w (map Fin zs) = Fin (sum_list zs / real w)"
  by (auto simp: window_mean_def foldl_f_add_Fin)

lemma rsi_of_rs_NaN [simp]: "rsi_of_rs NaN = NaN"
  by (simp add: rsi_of_rs_def)

text \<open>The last step of the pipeline on two window means \<open>g, l \<ge> 0\<close>.\<close>

lemma rsi_of_rs_div:
  assumes "0 \<le> g" "0 \<le> l"
  shows "rsi_of_rs (f_div (Fin g) (Fin l)) = rsi_formula g l"
proof -
  from assms have "0 \<le> g / l" by simp
  then have "1 + g / l \<noteq> 0" by linarith
  with assms show ?thesis by (simp add: rsi_of_rs_def rsi_formula_def)
qed

subsection \<open>Windows of the delta series\<close>

text \<open>
  The two shapes a window of the delta series can have: it reaches back to index 0, where
  \<open>diff\<close> put its NaN (the last warm-up index), or it lies wholly in the defined part and
  holds the price deltas of the window.
\<close>

lemma window_diff_Fin:
  assumes "p \<le> i" and "i < length ps"
  shows "window p i (series_diff (map Fin ps)) = map (\<lambda>j. Fin (ps ! j - ps ! (j - 1))) [Suc i - p..<Suc i]"
proof (rule nth_equalityI)
  show "length (window p i (series_diff (map Fin ps))) = length (map (\<lambda>j. Fin (ps ! j - ps ! (j - 1))) [Suc i - p..<Suc i])"
    using assms by (simp add: length_window, linarith)
next
  fix k assume "k < length (window p i (series_diff (map Fin ps)))"
  with assms have k: "k < p" by (simp add: length_window)
  with assms have j: "Suc i - p + k < length ps" "Suc i - p + k \<noteq> 0" by auto
  from assms k j show "window p i (series_diff (map Fin ps)) ! k = map (\<lambda>j. Fin (ps ! j - ps ! (j - 1))) [Suc i - p..<Suc i] ! k"
    by (simp add: nth_window nth_series_diff del: upt_Suc)
qed

lemma window_diff_warm:
  assumes "f NaN = NaN" and "Suc i = p" and "i < length xs"
  shows "NaN \<in> set (window p i (map f (series_diff xs)))"
proof -
  from assms(2,3) have "0 < length (series_diff xs)" by (cases xs) auto
  with assms(2,3) have "window p i (map f (series_diff xs)) ! 0 = f (series_diff xs ! 0)"
    by (simp add: nth_window)
  also have "\<dots> = NaN"
  proof -
    from assms(3) have "0 < length xs" by linarith
    with assms(1) show ?thesis by (simp add: nth_series_diff)
  qed
  finally show ?thesis
    using assms(2,3) by (metis length_map length_series_diff length_window le_refl nth_mem zero_less_Suc)
qed

lemma nth_calculate_rsi:
  assumes "i < length xs"
  shows "calculate_rsi xs p ! i =
    rsi_of_rs (f_div (rolling_mean p (map (clip_lower 0) (series_diff xs)) ! i)
                     (rolling_mean p (map f_neg (map (clip_upper 0) (series_diff xs))) ! i))"
  using assms by (simp add: calculate_rsi_def Let_def)

lemma length_calculate_rsi [simp]: "length (calculate_rsi xs p) = length xs"
  by (simp add: calculate_rsi_def Let_def)

lemma neg_min_zero: "- min d 0 = max (- d) (0::real)"
  by linarith

lemma sum_list_max_nonneg: "0 \<le> sum_list (map (\<lambda>d. max (f d) (0::real)) ds)"
  by (induction ds) auto

lemma rolling_warm:
  assumes "f NaN = NaN" and "i < p" and "i < length xs"
  shows "rolling_mean p (map f (series_diff xs)) ! i = NaN"
proof (cases "Suc i < p")
  case True
  with assms(3) show ?thesis by (simp add: nth_rolling_mean)
next
  case False
  with assms(2) have "Suc i = p" by simp
  with assms have "NaN \<in> set (window p i (map f (series_diff xs)))"
    by (intro window_diff_warm)
  with assms(3) False show ?thesis by (simp add: nth_rolling_mean window_mean_def)
qed

lemma rolling_gain_Fin:
  assumes "0 < p" "p \<le> i" "i < length ps"
  shows "rolling_mean p (map (clip_lower 0) (series_diff (map Fin ps))) ! i =
         Fin (sum_list (map (\<lambda>d. max d 0) (map (\<lambda>j. ps ! j - ps ! (j - 1)) [Suc i - p..<Suc i])) / real p)"
proof -
  have "window p i (map (clip_lower 0) (series_diff (map Fin ps))) =
        map Fin (map (\<lambda>d. max d 0) (map (\<lambda>j. ps ! j - ps ! (j - 1)) [Suc i - p..<Suc i]))"
    using assms(2,3) by (simp add: window_map window_diff_Fin del: upt_Suc)
  then have "window_mean p (window p i (map (clip_lower 0) (series_diff (map Fin ps)))) =
        Fin (sum_list (map (\<lambda>d. max d 0) (map (\<lambda>j. ps ! j - ps ! (j - 1)) [Suc i - p..<Suc i])) / real p)"
    by (simp only: window_mean_Fin [OF assms(1)])
  with assms show ?thesis by (simp only: nth_rolling_mean length_map length_series_diff) simp
qed

lemma rolling_loss_Fin:
  assumes "0 < p" "p \<le> i" "i < length ps"
  shows "rolling_mean p (map f_neg (map (clip_upper 0) (series_diff (map Fin ps)))) ! i =
         Fin (sum_list (map (\<lambda>d. max (- d) 0) (map (\<lambda>j. ps ! j - ps ! (j - 1)) [Suc i - p..<Suc i])) / real p)"
proof -
  have "window p i (map f_neg (map (clip_upper 0) (series_diff (map Fin ps)))) =
        map Fin (map (\<lambda>d. max (- d) 0) (map (\<lambda>j. ps ! j - ps ! (j - 1)) [Suc i - p..<Suc i]))"
    using assms(2,3) by (simp add: window_map window_diff_Fin neg_min_zero del: upt_Suc)
  then have "window_mean p (window p i (map f_neg (map (clip_upper 0) (series_diff (map Fin ps))))) =
        Fin (sum_list (map (\<lambda>d. max (- d) 0) (map (\<lambda>j. ps ! j - ps ! (j - 1)) [Suc i - p..<Suc i])) / real p)"
    by (simp only: window_mean_Fin [OF assms(1)])
  with assms show ?thesis by (simp only: nth_rolling_mean length_map length_series_diff) simp
qed

subsection \<open>Lemmas on the window sums\<close>

lemma sum_list_losses_zero: "\<forall>d\<in>set ds. 0 \<le> d \<Longrightarrow> sum_list (map (\<lambda>d. max (- d) 0) ds) = (0::real)"
  by (induction ds) auto

lemma sum_list_gains_zero: "\<forall>d\<in>set ds. d \<le> 0 \<Longrightarrow> sum_list (map (\<lambda>d. max d 0) ds) = (0::real)"
  by (induction ds) auto

lemma sum_list_gains_pos:
  "ds \<noteq> [] \<Longrightarrow> \<forall>d\<in>set ds. 0 < d \<Longrightarrow> 0 < sum_list (map (\<lambda>d. max d 0) ds :: real list)"
proof (induction ds)
  case Nil
  then show ?case by simp
next
  case (Cons d ds)
  have "0 \<le> sum_list (map (\<lambda>d. max d 0) ds :: real list)" by (rule sum_list_max_nonneg)
  with Cons.prems show ?case by simp
qed

text \<open>The value of the specification's formula always lies in \<open>[0, 100]\<close> or is NaN.\<close>

lemma rsi_formula_range:
  assumes "0 \<le> g" and "0 \<le> l"
  shows "rsi_formula g l = NaN \<or> (\<exists>r. rsi_formula g l = Fin r \<and> 0 \<le> r \<and> r \<le> 100)"
proof -
  from assms have "1 \<le> 1 + g / l" by simp
  then have "100 / (1 + g / l) \<le> 100" and "0 \<le> 100 / (1 + g / l)"
    by (simp_all add: divide_le_eq)
  then show ?thesis unfolding rsi_formula_def by auto
qed

lemma rsi_ref_range:
  "rsi_ref ps period i = NaN \<or> (\<exists>r. rsi_ref ps period i = Fin r \<and> 0 \<le> r \<and> r \<le> 100)"
proof (cases "i < period")
  case True
  then show ?thesis by (simp add: rsi_ref_def)
next
  case False
  let ?ds = "map (\<lambda>j. ps ! j - ps ! (j - 1)) [Suc i - period..<Suc i]"
  have "0 \<le> sum_list (map (\<lambda>d. max d 0) ?ds) / real period"
    and "0 \<le> sum_list (map (\<lambda>d. max (- d) 0) ?ds) / real period"
    by (intro divide_nonneg_nonneg sum_list_max_nonneg; simp)+
  from rsi_formula_range [OF this] False show ?thesis
    unfolding rsi_ref_def Let_def by (simp only: if_False)
qed

text \<open>The indicator entry of the specification only reads the prices from \<open>i - period\<close> to \<open>i\<close>.\<close>

lemma rsi_ref_drop:
  assumes "k + period \<le> i" and "i < length ps"
  shows "rsi_ref (drop k ps) period (i - k) = rsi_ref ps period i"
proof -
  have ds: "map (\<lambda>j. drop k ps ! j - drop k ps ! (j - 1)) [Suc (i - k) - period..<Suc (i - k)] =
            map (\<lambda>j. ps ! j - ps ! (j - 1)) [Suc i - period..<Suc i]"
  proof (rule nth_equalityI)
    fix m assume "m < length (map (\<lambda>j. drop k ps ! j - drop k ps ! (j - 1)) [Suc (i - k) - period..<Suc (i - k)])"
    then have m: "m < period" using assms by (simp del: upt_Suc)
    have e1: "k + (Suc (i - k) - period + m) = Suc i - period + m"
      and e2: "k + (Suc (i - k) - period + m - 1) = Suc i - period + m - 1"
      using assms m by arith+
    from assms m show "map (\<lambda>j. drop k ps ! j - drop k ps ! (j - 1)) [Suc (i - k) - period..<Suc (i - k)] ! m =
          map (\<lambda>j. ps ! j - ps ! (j - 1)) [Suc i - period..<Suc i] ! m"
      by (simp add: e1 e2 del: upt_Suc)
  qed (use assms in \<open>simp del: upt_Suc\<close>)
  from assms have "\<not> i - k < period" "\<not> i < period" by arith+
  with ds show ?thesis
    unfolding rsi_ref_def Let_def by (simp only: if_False)
qed

lemma calculate_rsi_warm_entry:
  assumes "i < period" and "i < length xs"
  shows "calculate_rsi xs period ! i = NaN"
proof -
  have "rolling_mean period (map (clip_lower 0) (series_diff xs)) ! i = NaN"
    using assms by (intro rolling_warm) simp_all
  with assms(2) show ?thesis by (simp add: nth_calculate_rsi)
qed

lemma nth_calculate_rsi_ref:
  assumes i: "i < length ps"
  shows "calculate_rsi (map Fin ps) period ! i = rsi_ref ps period i"
proof (cases "i < period")
  case True
  with i show ?thesis by (simp add: calculate_rsi_warm_entry rsi_ref_def)
next
  case notwarm: False
  show ?thesis
  proof (cases "period = 0")
    case True
    with i show ?thesis
      by (simp add: nth_calculate_rsi nth_rolling_mean window_def window_mean_def rsi_ref_def rsi_formula_def)
  next
    case False
    let ?ds = "map (\<lambda>j. ps ! j - ps ! (j - 1)) [Suc i - period..<Suc i]"
    let ?g = "sum_list (map (\<lambda>d. max d 0) ?ds) / real period"
    let ?l = "sum_list (map (\<lambda>d. max (- d) 0) ?ds) / real period"
    have pos: "0 < period" "period \<le> i" using False notwarm by simp_all
    from i have i': "i < length (map Fin ps)" by simp
    have "calculate_rsi (map Fin ps) period ! i = rsi_of_rs (f_div (Fin ?g) (Fin ?l))"
      by (simp only: nth_calculate_rsi [OF i'] rolling_gain_Fin [OF pos i] rolling_loss_Fin [OF pos i])
    also have "\<dots> = rsi_formula ?g ?l"
      by (rule rsi_of_rs_div; intro divide_nonneg_nonneg sum_list_max_nonneg; simp)
    also have "\<dots> = rsi_ref ps period i"
      unfolding rsi_ref_def Let_def by (simp only: notwarm if_False)
    finally show ?thesis .
  qed
qed

lemma last_calculate_rsi:
  assumes "ps \<noteq> []"
  shows "last (calculate_rsi (map Fin ps) period) = rsi_ref ps period (length ps - 1)"
proof -
  have ne: "calculate_rsi (map Fin ps) period \<noteq> []"
    using assms by (metis length_calculate_rsi length_map length_0_conv)
  then have "last (calculate_rsi (map Fin ps) period) = calculate_rsi (map Fin ps) period ! (length ps - 1)"
    by (simp add: last_conv_nth)
  also have "\<dots> = rsi_ref ps period (length ps - 1)"
    using assms by (intro nth_calculate_rsi_ref) simp
  finally show ?thesis .
qed

subsection \<open>Correctness of the indicator\<close>

text \<open>
  C3. The warm-up region: for any input Series, also one holding NaN or infinite prices,
  the entries below index \<open>period\<close> are NaN.
\<close>

theorem calculate_rsi_warmup:
  assumes "i < period" and "i < length xs"
  shows "calculate_rsi xs period ! i = NaN"
  using assms by (rule calculate_rsi_warm_entry)

text \<open>
  C1. The pandas pipeline of \<open>calculate_rsi\<close> computes, on every finite price sequence
  and at every index, the indicator defined by the specification's formula.
\<close>

theorem calculate_rsi_eq_ref:
  "calculate_rsi (map Fin ps) period = map (rsi_ref ps period) [0..<length ps]"
  by (rule nth_equalityI) (simp_all add: nth_calculate_rsi_ref)

text \<open>
  C2. Bounds: on a finite price sequence, every entry of the indicator is NaN or a value
  in \<open>[0, 100]\<close>.
\<close>

theorem calculate_rsi_bounds:
  assumes "v \<in> set (calculate_rsi (map Fin ps) period)"
  shows "v = NaN \<or> (\<exists>r. v = Fin r \<and> 0 \<le> r \<and> r \<le> 100)"
proof -
  from assms obtain i where "i < length ps" "v = calculate_rsi (map Fin ps) period ! i"
    by (auto simp: in_set_conv_nth)
  then have "v = rsi_ref ps period i" by (simp add: nth_calculate_rsi_ref)
  then show ?thesis using rsi_ref_range by blast
qed

text \<open>
  C4. Saturation: over a strictly rising price sequence every defined entry is 100; the
  zero average loss does not fail (pandas divides by zero into \<open>inf\<close>).
\<close>

theorem calculate_rsi_rising:
  assumes "sorted_wrt (<) ps" and "0 < period" and "period \<le> i" and "i < length ps"
  shows "calculate_rsi (map Fin ps) period ! i = Fin 100"
proof -
  let ?ds = "map (\<lambda>j. ps ! j - ps ! (j - 1)) [Suc i - period..<Suc i]"
  have pos: "\<forall>d\<in>set ?ds. 0 < d"
  proof
    fix d assume "d \<in> set ?ds"
    then obtain j where j: "Suc i - period \<le> j" "j \<le> i" "d = ps ! j - ps ! (j - 1)"
      by (auto simp del: upt_Suc)
    with assms have "ps ! (j - 1) < ps ! j"
      by (intro sorted_wrt_nth_less [OF assms(1)]) auto
    with j show "0 < d" by simp
  qed
  have ne: "?ds \<noteq> []" using assms(2,3) by (simp del: upt_Suc)
  from pos have "sum_list (map (\<lambda>d. max (- d) 0) ?ds) = 0"
    by (intro sum_list_losses_zero) auto
  moreover from ne pos have "0 < sum_list (map (\<lambda>d. max d 0) ?ds)"
    by (rule sum_list_gains_pos)
  ultimately have "rsi_ref ps period i = Fin 100"
    using assms(2,3) unfolding rsi_ref_def rsi_formula_def Let_def by (simp del: upt_Suc)
  with assms(4) show ?thesis by (simp add: nth_calculate_rsi_ref)
qed

text \<open>
  C5. A window in which the price never moved has neither gains nor losses: pandas
  computes \<open>0/0\<close> and the entry is NaN, not the saturation value the specification
  suggests.
\<close>

theorem calculate_rsi_flat:
  assumes "\<forall>j. Suc i - period \<le> j \<and> j \<le> i \<longrightarrow> ps ! j = ps ! (j - 1)"
    and "i < length ps"
  shows "calculate_rsi (map Fin ps) period ! i = NaN"
proof -
  let ?ds = "map (\<lambda>j. ps ! j - ps ! (j - 1)) [Suc i - period..<Suc i]"
  have "\<forall>d\<in>set ?ds. d = 0" using assms(1) by (auto simp del: upt_Suc)
  then have "sum_list (map (\<lambda>d. max (- d) 0) ?ds) = 0" "sum_list (map (\<lambda>d. max d 0) ?ds) = 0"
    by (intro sum_list_losses_zero sum_list_gains_zero; auto)+
  then have "rsi_ref ps period i = NaN"
    unfolding rsi_ref_def rsi_formula_def Let_def by (simp del: upt_Suc)
  with assms(2) show ?thesis by (simp add: nth_calculate_rsi_ref)
qed

text \<open>
  C6. The value the bot reads, the last entry, depends only on the last \<open>period + 1\<close>
  prices: computing the indicator on that suffix gives the same last entry.
\<close>

theorem calculate_rsi_last_suffix:
  assumes "period < length ps"
  shows "last (calculate_rsi (map Fin ps) period) =
         last (calculate_rsi (map Fin (drop (length ps - Suc period) ps)) period)"
proof -
  let ?k = "length ps - Suc period"
  have n: "length (drop ?k ps) = Suc period" using assms by simp
  have "last (calculate_rsi (map Fin ps) period) = rsi_ref ps period (length ps - 1)"
    using assms by (intro last_calculate_rsi) auto
  also have "\<dots> = rsi_ref (drop ?k ps) period (length ps - 1 - ?k)"
    using assms by (intro rsi_ref_drop [symmetric]) simp_all
  also have "length ps - 1 - ?k = length (drop ?k ps) - 1" using assms by simp
  also have "rsi_ref (drop ?k ps) period (length (drop ?k ps) - 1) =
             last (calculate_rsi (map Fin (drop ?k ps)) period)"
    using n by (intro last_calculate_rsi [symmetric]) auto
  finally show ?thesis .
qed

subsection \<open>Witnesses\<close>

text \<open>Each theorem above, applied to a concrete series where its hypotheses hold.\<close>

theorem calculate_rsi_eval_example:
  "calculate_rsi (map Fin [1, 2, 1, 3]) 2 = [NaN, NaN, Fin 50, Fin (200 / 3)]"
  by (simp add: rsi_eval_simps)

theorem calculate_rsi_bounds_witness:
  "Fin 50 \<in> set (calculate_rsi (map Fin [1, 2, 1, 3]) 2) \<and>
   (Fin 50 = NaN \<or> (\<exists>r. Fin 50 = Fin r \<and> 0 \<le> r \<and> r \<le> (100::real)))"
proof -
  have m: "Fin 50 \<in> set (calculate_rsi (map Fin [1, 2, 1, 3]) 2)"
    by (simp add: rsi_eval_simps)
  show ?thesis using m calculate_rsi_bounds [OF m] by blast
qed

theorem calculate_rsi_warmup_witness:
  "(13::nat) < RSI_PERIOD \<and> 13 < length (map Fin (map real [1..<16])) \<and>
   calculate_rsi (map Fin (map real [1..<16])) RSI_PERIOD ! 13 = NaN"
  using calculate_rsi_warmup [of 13 RSI_PERIOD "map Fin (map real [1..<16])"]
  by (simp add: RSI_PERIOD_def)

theorem calculate_rsi_rising_witness:
  "sorted_wrt (<) (map real [1..<16]) \<and> 0 < RSI_PERIOD \<and> RSI_PERIOD \<le> 14 \<and>
   14 < length (map real [1..<16]) \<and>
   calculate_rsi (map Fin (map real [1..<16])) RSI_PERIOD ! 14 = Fin 100"
  using calculate_rsi_rising [of "map real [1..<16]" RSI_PERIOD 14]
  by (simp add: RSI_PERIOD_def sorted_wrt_map upt_rec)

theorem calculate_rsi_flat_witness:
  "2 < length (replicate 3 (5::real)) \<and> calculate_rsi (map Fin (replicate 3 5)) 2 ! 2 = NaN"
proof -
  have h: "\<forall>j. Suc 2 - 2 \<le> j \<and> j \<le> 2 \<longrightarrow> replicate 3 (5::real) ! j = replicate 3 5 ! (j - 1)"
    by (auto simp: nth_replicate)
  have "2 < length (replicate 3 (5::real))" by simp
  with calculate_rsi_flat [OF h this] show ?thesis by simp
qed

theorem calculate_rsi_last_suffix_witness:
  "(2::nat) < length [1, 2, 1, 3 :: real] \<and>
   last (calculate_rsi (map Fin [1, 2, 1, 3]) 2) =
   last (calculate_rsi (map Fin (drop (length [1, 2, 1, 3 :: real] - Suc 2) [1, 2, 1, 3])) 2)"
  using calculate_rsi_last_suffix [of 2 "[1, 2, 1, 3 :: real]"] by simp

end
