(* ===== verification/PyJson.thy ===== *)
theory PyJson
  imports PyFloat
begin

text \<open>
  The Python runtime the exchange client stands on: the JSON values \<open>resp.json()\<close>
  returns (\<open>json.loads\<close>: objects become dicts whose duplicate keys keep the last value,
  integer literals become \<open>int\<close>, other numbers \<open>float\<close>, \<open>NaN\<close>/\<open>Infinity\<close>
  accepted), subscripting \<open>x["k"]\<close> and \<open>x[i]\<close> and iteration with the exceptions and
  messages CPython 3.11 raises, the builtin \<open>float()\<close> (with the string syntax it
  accepts), \<open>pd.to_datetime(x, unit='ms')\<close> and the \<open>str()\<close> of the values the bot
  interpolates into its texts. Strings are byte strings: indexing a string is exact for the
  ASCII text the exchange returns.
\<close>

datatype json =
    JNull
  | JBool bool
  | JInt int
  | JFloat pyfloat
  | JStr string
  | JArr "json list"
  | JObj "(string \<times> json) list"

subsection \<open>Subscripting and iteration\<close>

definition type_name :: "json \<Rightarrow> string" where
  "type_name j = (case j of JNull \<Rightarrow> ''NoneType'' | JBool _ \<Rightarrow> ''bool'' | JInt _ \<Rightarrow> ''int''
     | JFloat _ \<Rightarrow> ''float'' | JStr _ \<Rightarrow> ''str'' | JArr _ \<Rightarrow> ''list'' | JObj _ \<Rightarrow> ''dict'')"

text \<open>\<open>repr\<close> of a string (quotes inside the string are not escaped).\<close>

definition str_repr :: "string \<Rightarrow> string" where
  "str_repr s = CHR 0x27 # s @ [CHR 0x27]"

definition not_subscriptable :: "json \<Rightarrow> py_exc" where
  "not_subscriptable j = TypeError (str_repr (type_name j) @ '' object is not subscriptable'')"

text \<open>A dict built by \<open>json.loads\<close>: the last binding of a key wins.\<close>

definition dict_get :: "(string \<times> json) list \<Rightarrow> string \<Rightarrow> json option" where
  "dict_get kvs k = map_of (rev kvs) k"

fun getitem_key :: "json \<Rightarrow> string \<Rightarrow> py_exc + json" where
  "getitem_key (JObj kvs) k = (case dict_get kvs k of None \<Rightarrow> Inl (KeyError (str_repr k)) | Some v \<Rightarrow> Inr v)"
| "getitem_key (JArr _) k = Inl (TypeError ''list indices must be integers or slices, not str'')"
| "getitem_key (JStr _) k = Inl (TypeError (''string indices must be integers, not '' @ str_repr ''str''))"
| "getitem_key j k = Inl (not_subscriptable j)"

text \<open>The keys of a dict built from the pairs, in insertion order: a repeated key keeps its first position.\<close>

definition dict_keys :: "(string \<times> 'a) list \<Rightarrow> string list" where
  "dict_keys kvs = rev (remdups (rev (map fst kvs)))"

text \<open>Python's index normalisation: negative indices count from the end.\<close>

definition py_index :: "nat \<Rightarrow> int \<Rightarrow> nat option" where
  "py_index n i = (let j = (if i < 0 then int n + i else i) in if 0 \<le> j \<and> j < int n then Some (nat j) else None)"

fun getitem_idx :: "json \<Rightarrow> int \<Rightarrow> py_exc + json" where
  "getitem_idx (JArr xs) i =
     (case py_index (length xs) i of None \<Rightarrow> Inl (IndexError ''list index out of range'') | Some j \<Rightarrow> Inr (xs ! j))"
| "getitem_idx (JStr s) i =
     (case py_index (length s) i of None \<Rightarrow> Inl (IndexError ''string index out of range'') | Some j \<Rightarrow> Inr (JStr [s ! j]))"
| "getitem_idx (JObj kvs) i = Inl (KeyError (int_str i))"
| "getitem_idx j i = Inl (not_subscriptable j)"

text \<open>\<open>for x in v\<close>: a list yields its items, a dict its keys, a string its characters.\<close>

fun py_iter :: "json \<Rightarrow> py_exc + json list" where
  "py_iter (JArr xs) = Inr xs"
| "py_iter (JObj kvs) = Inr (map JStr (dict_keys kvs))"
| "py_iter (JStr s) = Inr (map (\<lambda>c. JStr [c]) s)"
| "py_iter j = Inl (TypeError (str_repr (type_name j) @ '' object is not iterable''))"

subsection \<open>\<open>float()\<close>\<close>

text \<open>
  The string syntax of \<open>float(s)\<close>: surrounding whitespace, an optional sign, then
  \<open>inf\<close>, \<open>infinity\<close> or \<open>nan\<close> in any case, or a decimal literal: digits with single
  underscores between them, an optional fraction, an optional exponent. A finite literal
  denotes its exact value; one whose magnitude rounds beyond the largest binary64 value
  becomes an infinity, as CPython's correctly rounded conversion gives.
\<close>

definition is_space :: "char \<Rightarrow> bool" where
  "is_space c = ((of_char c :: nat) \<in> {9, 10, 11, 12, 13, 28, 29, 30, 31, 32})"

definition strip :: "string \<Rightarrow> string" where
  "strip s = rev (dropWhile is_space (rev (dropWhile is_space s)))"

definition lower_ascii :: "char \<Rightarrow> char" where
  "lower_ascii c = (let k = of_char c :: nat in if 65 \<le> k \<and> k \<le> 90 then char_of (k + 32) else c)"

text \<open>A run of digits with single underscores between digits: its value, its number of digits, the rest.\<close>

fun digit_run :: "nat \<Rightarrow> nat \<Rightarrow> string \<Rightarrow> nat \<times> nat \<times> string" where
  "digit_run v n [] = (v, n, [])"
| "digit_run v n (c # cs) =
     (case char_digit c of
        Some d \<Rightarrow> digit_run (10 * v + d) (Suc n) cs
      | None \<Rightarrow> (if c = CHR ''_'' \<and> 0 < n \<and> (case cs of [] \<Rightarrow> False | d # _ \<Rightarrow> char_digit d \<noteq> None)
                 then digit_run v n cs else (v, n, c # cs)))"

definition parse_exponent :: "string \<Rightarrow> int option" where
  "parse_exponent cs =
     (let (sg, r) = (case cs of [] \<Rightarrow> (1, [])
                      | c # r \<Rightarrow> if c = CHR ''+'' then (1, r) else if c = CHR ''-'' then (-1, r) else (1, cs));
          (v, n, r') = digit_run 0 0 r
      in if n = 0 \<or> r' \<noteq> [] then None else Some (sg * int v))"

text \<open>An unsigned decimal literal: mantissa digits \<open>m\<close>, number \<open>f\<close> of fraction digits, exponent \<open>e\<close>.\<close>

definition parse_unsigned :: "string \<Rightarrow> (nat \<times> nat \<times> int) option" where
  "parse_unsigned cs =
     (let (iv, n1, r1) = digit_run 0 0 cs;
          (m, f, r2, ok) = (case r1 of
              c # r \<Rightarrow> if c = CHR ''.'' then (let (fv, n2, r') = digit_run 0 0 r in (iv * 10 ^ n2 + fv, n2, r', 0 < n1 \<or> 0 < n2))
                       else (iv, 0, r1, 0 < n1)
            | [] \<Rightarrow> (iv, 0, [], 0 < n1))
      in if \<not> ok then None
         else case r2 of [] \<Rightarrow> Some (m, f, 0)
           | c # r \<Rightarrow> if c = CHR ''e'' \<or> c = CHR ''E'' then map_option (\<lambda>e. (m, f, e)) (parse_exponent r) else None)"

definition decimal_value :: "nat \<Rightarrow> nat \<Rightarrow> int \<Rightarrow> real" where
  "decimal_value m f e = (if int f \<le> e then real m * 10 ^ nat (e - int f) else real m / 10 ^ nat (int f - e))"

text \<open>Magnitudes from \<open>2^1024 - 2^970\<close> on round to infinity in binary64.\<close>

definition FLOAT_OVERFLOW :: real where
  "FLOAT_OVERFLOW = 2 ^ 1024 - 2 ^ 970"

definition round_to_float :: "real \<Rightarrow> pyfloat" where
  "round_to_float r = (if FLOAT_OVERFLOW \<le> r then PInf else if r \<le> - FLOAT_OVERFLOW then NInf else Fin r)"

definition parse_float :: "string \<Rightarrow> pyfloat option" where
  "parse_float s =
     (let t = strip s;
          (neg, body) = (case t of [] \<Rightarrow> (False, [])
                          | c # r \<Rightarrow> if c = CHR ''-'' then (True, r) else if c = CHR ''+'' then (False, r) else (False, t));
          low = map lower_ascii body
      in if low = ''inf'' \<or> low = ''infinity'' then Some (if neg then NInf else PInf)
         else if low = ''nan'' then Some NaN
         else map_option (\<lambda>(m, f, e). round_to_float (if neg then - decimal_value m f e else decimal_value m f e))
                (parse_unsigned body))"

lemmas float_parse_simps = parse_float_def strip_def is_space_def lower_ascii_def parse_unsigned_def
  parse_exponent_def decimal_value_def round_to_float_def FLOAT_OVERFLOW_def char_digit_def

fun py_float :: "json \<Rightarrow> py_exc + pyfloat" where
  "py_float (JFloat x) = Inr x"
| "py_float (JInt i) =
     (if FLOAT_OVERFLOW \<le> \<bar>real_of_int i\<bar> then Inl (OverflowError ''int too large to convert to float'')
      else Inr (Fin (real_of_int i)))"
| "py_float (JBool b) = Inr (Fin (if b then 1 else 0))"
| "py_float (JStr s) =
     (case parse_float s of None \<Rightarrow> Inl (ValueError (''could not convert string to float: '' @ str_repr s))
      | Some x \<Rightarrow> Inr x)"
| "py_float j = Inl (TypeError (''float() argument must be a string or a real number, not '' @ str_repr (type_name j)))"

subsection \<open>\<open>pd.to_datetime(x, unit='ms')\<close>\<close>

text \<open>
  The value \<open>pd.to_datetime\<close> returns for a scalar: \<open>None\<close> for \<open>None\<close>, \<open>NaT\<close> for NaN
  and the NaT strings, otherwise a Timestamp, held as nanoseconds since the epoch in the
  signed 64-bit range (\<open>-2^63\<close> itself is the NaT sentinel). A millisecond float keeps its
  integral part exactly and rounds its fraction to nanoseconds (pandas' \<open>cast_from_unit\<close>);
  a numeric string is read as a float. Lists and dicts, for which pandas returns an index,
  are not modelled and raise here.
\<close>

datatype pytime = NoneTime | NaT | Timestamp int

definition ts_checked :: "int \<Rightarrow> py_exc + pytime" where
  "ts_checked ns = (if - (2 ^ 63) < ns \<and> ns < 2 ^ 63 then Inr (Timestamp ns)
                    else Inl (OutOfBoundsDatetime ''Out of bounds nanosecond timestamp''))"

definition round_half_even_int :: "real \<Rightarrow> int" where
  "round_half_even_int x = (if 0 \<le> x then int (round_half_even x) else - int (round_half_even (- x)))"

definition ms_float_to_ns :: "real \<Rightarrow> int" where
  "ms_float_to_ns r = (let b = (if 0 \<le> r then \<lfloor>r\<rfloor> else \<lceil>r\<rceil>) in b * 1000000 + round_half_even_int ((r - of_int b) * 1000000))"

definition nat_strings :: "string list" where
  "nat_strings = [''NaT'', ''nat'', ''NAT'', ''nan'', ''NaN'', ''NAN'']"

fun float_to_time :: "pyfloat \<Rightarrow> py_exc + pytime" where
  "float_to_time NaN = Inr NaT"
| "float_to_time (Fin r) = ts_checked (ms_float_to_ns r)"
| "float_to_time _ = Inl (OutOfBoundsDatetime ''Out of bounds nanosecond timestamp'')"

fun to_datetime_ms :: "json \<Rightarrow> py_exc + pytime" where
  "to_datetime_ms JNull = Inr NoneTime"
| "to_datetime_ms (JInt n) = ts_checked (n * 1000000)"
| "to_datetime_ms (JFloat x) = float_to_time x"
| "to_datetime_ms (JStr s) =
     (if s = [] \<or> s \<in> set nat_strings then Inr NaT
      else case parse_float s of
        None \<Rightarrow> Inl (ValueError (''non convertible value '' @ s @ '' with the unit '' @ str_repr ''ms''))
      | Some x \<Rightarrow> float_to_time x)"
| "to_datetime_ms j = Inl (TypeError (str_repr (type_name j) @ '' is not convertible to datetime''))"

subsection \<open>Rendering\<close>

text \<open>
  The proleptic Gregorian date of a day number counted from 1970-01-01 (the civil-from-days
  computation on 400-year eras that datetime libraries use).
\<close>

definition civil_from_days :: "int \<Rightarrow> int \<times> int \<times> int" where
  "civil_from_days z0 =
     (let z = z0 + 719468; era = z div 146097; doe = z - era * 146097;
          yoe = (doe - doe div 1460 + doe div 36524 - doe div 146096) div 365;
          doy = doe - (365 * yoe + yoe div 4 - yoe div 100);
          mp = (5 * doy + 2) div 153;
          d = doy - (153 * mp + 2) div 5 + 1;
          m = (if mp < 10 then mp + 3 else mp - 9);
          y = yoe + era * 400 + (if m \<le> 2 then 1 else 0)
      in (y, m, d))"

definition two_digits :: "int \<Rightarrow> string" where
  "two_digits k = pad_zeros 2 (nat_digits (nat k))"

text \<open>\<open>str(Timestamp)\<close>: \<open>YYYY-MM-DD HH:MM:SS\<close>, then \<open>.ffffff\<close> when the microseconds are
  not zero or \<open>.fffffffff\<close> when the nanoseconds are not.\<close>

definition timestamp_str :: "int \<Rightarrow> string" where
  "timestamp_str ns =
     (let day = ns div 86400000000000; rem = ns mod 86400000000000;
          secs = rem div 1000000000; sub = rem mod 1000000000;
          (y, m, d) = civil_from_days day;
          frac = (if sub mod 1000 \<noteq> 0 then CHR ''.'' # pad_zeros 9 (nat_digits (nat sub))
                  else if sub \<noteq> 0 then CHR ''.'' # pad_zeros 6 (nat_digits (nat (sub div 1000))) else [])
      in int_str y @ CHR ''-'' # two_digits m @ CHR ''-'' # two_digits d @ CHR '' '' #
         two_digits (secs div 3600) @ CHR '':'' # two_digits (secs mod 3600 div 60) @ CHR '':'' #
         two_digits (secs mod 60) @ frac)"

primrec time_str :: "pytime \<Rightarrow> string" where
  "time_str NoneTime = ''None''"
| "time_str NaT = ''NaT''"
| "time_str (Timestamp ns) = timestamp_str ns"

text \<open>
  \<open>repr\<close> of a float: the special values by name, a finite value with the fewest decimals
  (at least one, at most 17) that write it exactly. The exponent notation CPython switches
  to below \<open>1e-4\<close> and from \<open>1e16\<close> on is not modelled.
\<close>

definition float_decimals :: "real \<Rightarrow> nat" where
  "float_decimals r = (case find (\<lambda>k. of_int \<lfloor>r * 10 ^ k\<rfloor> = r * 10 ^ k) [1..<18] of None \<Rightarrow> 17 | Some k \<Rightarrow> k)"

fun float_repr :: "pyfloat \<Rightarrow> string" where
  "float_repr (Fin r) = format_fixed (float_decimals r) (Fin r)"
| "float_repr x = format_fixed 0 x"

text \<open>A dict's entries in insertion order of their first key, each with its last value.\<close>

definition dict_items :: "(string \<times> json) list \<Rightarrow> (string \<times> json) list" where
  "dict_items kvs = map (\<lambda>k. (k, the (dict_get kvs k))) (dict_keys kvs)"

fun py_repr :: "json \<Rightarrow> string" where
  "py_repr JNull = ''None''"
| "py_repr (JBool b) = (if b then ''True'' else ''False'')"
| "py_repr (JInt i) = int_str i"
| "py_repr (JFloat x) = float_repr x"
| "py_repr (JStr s) = str_repr s"
| "py_repr (JArr xs) = CHR ''['' # join_str '', '' (map py_repr xs) @ '']''"
| "py_repr (JObj kvs) = CHR ''{'' # join_str '', '' (map (\<lambda>kv. str_repr (fst kv) @ '': '' @ py_repr (snd kv)) kvs) @ ''}''"

text \<open>\<open>str(x)\<close> and f-string interpolation: a string is itself, a dict shows its entries.\<close>

fun py_str :: "json \<Rightarrow> string" where
  "py_str (JStr s) = s"
| "py_str (JObj kvs) = py_repr (JObj (dict_items kvs))"
| "py_str j = py_repr j"

subsection \<open>Lemmas\<close>

lemma dict_keys_Cons: "dict_keys ((k, v) # kvs) = k # removeAll k (dict_keys kvs)"
  by (simp add: dict_keys_def remdups_snoc removeAll_filter_not_eq rev_filter)

end
