(* ===== verification/Exchange.thy ===== *)
theory Exchange
  imports RSI PyJson
begin

text \<open>
  The exchange client of \<open>src/bot.py\<close>: \<open>get_all_symbols\<close> (lines 46-50) reads the
  instrument directory and keeps the USDT-quoted contracts in TRADING status;
  \<open>fetch_data\<close> (lines 53-74) reads one symbol's latest funding sample and its 1m, 5m and
  15m candles, computes the indicator on each, and turns every exception into a printed
  line and the tuple \<open>(symbol, None, None, None)\<close>. The HTTP transport is the parameter
  \<open>get\<close>: it maps a URL to the decoded JSON body or to the text of the exception that
  \<open>session.get\<close> or \<open>resp.json()\<close> raised. A cycle of the scheduler sees one such
  snapshot of the exchange.
\<close>

type_synonym http = "string \<Rightarrow> string + json"

definition BINANCE_FUTURES_SYMBOLS_URL :: string where
  "BINANCE_FUTURES_SYMBOLS_URL = ''https://fapi.binance.com/fapi/v1/exchangeInfo''"

definition funding_url :: "string \<Rightarrow> string" where
  "funding_url symbol = ''https://fapi.binance.com/fapi/v1/fundingRate?symbol='' @ symbol @ ''&limit=1''"

definition klines_url :: "string \<Rightarrow> string \<Rightarrow> string" where
  "klines_url symbol interval =
     ''https://fapi.binance.com/fapi/v1/klines?symbol='' @ symbol @ ''&interval='' @ interval @ ''&limit=100''"

definition INTERVALS :: "string list" where
  "INTERVALS = [''1m'', ''5m'', ''15m'']"

text \<open>\<open>async with session.get(url) as resp: data = await resp.json()\<close>.\<close>

definition http_json :: "http \<Rightarrow> string \<Rightarrow> py_exc + json" where
  "http_json get url = (case get url of Inl m \<Rightarrow> Inl (ClientError m) | Inr j \<Rightarrow> Inr j)"

subsection \<open>The symbol universe\<close>

text \<open>
  \<open>[s["symbol"] for s in data["symbols"] if s["quoteAsset"] == "USDT" and s["status"] == "TRADING"]\<close>:
  per entry, the quote asset is read first, the status only when it is USDT (\<open>and\<close>
  short-circuits), the symbol only when both hold; the first exception aborts.
\<close>

fun select_symbols :: "json list \<Rightarrow> py_exc + json list" where
  "select_symbols [] = Inr []"
| "select_symbols (s # ss) =
     ebind (getitem_key s ''quoteAsset'') (\<lambda>q.
       if q = JStr ''USDT'' then
         ebind (getitem_key s ''status'') (\<lambda>st.
           if st = JStr ''TRADING'' then
             ebind (getitem_key s ''symbol'') (\<lambda>sym. ebind (select_symbols ss) (\<lambda>rest. Inr (sym # rest)))
           else select_symbols ss)
       else select_symbols ss)"

definition get_all_symbols :: "http \<Rightarrow> py_exc + json list" where
  "get_all_symbols get =
     ebind (http_json get BINANCE_FUTURES_SYMBOLS_URL) (\<lambda>data.
     ebind (getitem_key data ''symbols'') (\<lambda>symbols.
     ebind (py_iter symbols) select_symbols))"

subsection \<open>One symbol's data\<close>

text \<open>\<open>closes = pd.Series([float(k[4]) for k in klines])\<close>.\<close>

definition kline_closes :: "json \<Rightarrow> py_exc + pyfloat list" where
  "kline_closes klines = ebind (py_iter klines) (emap (\<lambda>k. ebind (getitem_idx k 4) py_float))"

text \<open>The loop over the timeframes, filling \<open>rsi_values[interval] = calculate_rsi(closes).iloc[-1]\<close>.\<close>

fun fetch_rsi :: "http \<Rightarrow> string \<Rightarrow> string list \<Rightarrow> (string \<times> pyfloat) list \<Rightarrow> py_exc + (string \<times> pyfloat) list" where
  "fetch_rsi get symbol [] rsi_values = Inr rsi_values"
| "fetch_rsi get symbol (interval # intervals) rsi_values =
     ebind (http_json get (klines_url symbol interval)) (\<lambda>klines.
     ebind (kline_closes klines) (\<lambda>closes.
     ebind (iloc_last (calculate_rsi closes RSI_PERIOD)) (\<lambda>v.
     fetch_rsi get symbol intervals (dict_set rsi_values interval v))))"

text \<open>
  The body of the \<open>try\<close> block: the funding sample (\<open>fr_data[0]\<close> is read twice, as in
  the source), the rate as a percentage, the funding time, then the indicator values.
\<close>

definition fetch_body :: "http \<Rightarrow> json \<Rightarrow> py_exc + pyfloat \<times> pytime \<times> (string \<times> pyfloat) list" where
  "fetch_body get symbol =
     (let s = py_str symbol in
      ebind (http_json get (funding_url s)) (\<lambda>fr_data.
      ebind (getitem_idx fr_data 0) (\<lambda>fr0.
      ebind (getitem_key fr0 ''fundingRate'') (\<lambda>rate.
      ebind (py_float rate) (\<lambda>x.
      ebind (getitem_idx fr_data 0) (\<lambda>fr0'.
      ebind (getitem_key fr0' ''fundingTime'') (\<lambda>t.
      ebind (to_datetime_ms t) (\<lambda>funding_time.
      ebind (fetch_rsi get s INTERVALS []) (\<lambda>rsi_values.
      Inr (f_mul x (Fin 100), funding_time, rsi_values))))))))))"

type_synonym fetch_result = "json \<times> pyfloat option \<times> pytime option \<times> (string \<times> pyfloat) list option"

text \<open>\<open>print(f"{symbol} verisi al\<i>namad\<i>: {e}")\<close>.\<close>

definition fetch_error_line :: "json \<Rightarrow> py_exc \<Rightarrow> string" where
  "fetch_error_line symbol e =
     py_str symbol @ '' verisi al'' @ [CHR 0xC4, CHR 0xB1] @ ''namad'' @ [CHR 0xC4, CHR 0xB1] @ '': '' @ exc_str e"

definition fetch_data :: "http \<Rightarrow> json \<Rightarrow> event list \<times> fetch_result" where
  "fetch_data get symbol =
     (case fetch_body get symbol of
        Inr (funding_rate, funding_time, rsi_values) \<Rightarrow>
          ([], (symbol, Some funding_rate, Some funding_time, Some rsi_values))
      | Inl e \<Rightarrow> ([Print (fetch_error_line symbol e)], (symbol, None, None, None)))"

subsection \<open>The instrument directory\<close>

text \<open>
  An entry of the instrument directory as the exchange documents it: a ticker, a quote
  asset and a trading status, after any other fields of the entry.
\<close>

record instrument =
  isymbol :: string
  iquote :: string
  istatus :: string
  iextra :: "(string \<times> json) list"

definition instrument_json :: "instrument \<Rightarrow> json" where
  "instrument_json i = JObj (iextra i @ [(''symbol'', JStr (isymbol i)), (''quoteAsset'', JStr (iquote i)),
                                        (''status'', JStr (istatus i))])"

definition tradable_usdt :: "instrument \<Rightarrow> bool" where
  "tradable_usdt i = (iquote i = ''USDT'' \<and> istatus i = ''TRADING'')"

subsection \<open>Request URLs, decoded\<close>

text \<open>
  How the exchange reads a request URL: the path up to \<open>?\<close>, then the query as
  \<open>&\<close>-separated \<open>key=value\<close> pairs. The f-strings of lines 56 and 65 do not escape
  their arguments, so the round trip below needs arguments without \<open>&\<close>.
\<close>

definition url_path :: "string \<Rightarrow> string" where
  "url_path url = takeWhile (\<lambda>x. x \<noteq> CHR ''?'') url"

definition query_params :: "string \<Rightarrow> (string \<times> string) list" where
  "query_params url =
     map (\<lambda>kv. (takeWhile (\<lambda>x. x \<noteq> CHR ''='') kv, drop 1 (dropWhile (\<lambda>x. x \<noteq> CHR ''='') kv)))
       (split_on (CHR ''&'') (drop 1 (dropWhile (\<lambda>x. x \<noteq> CHR ''?'') url)))"

subsection \<open>Test snapshots\<close>

text \<open>Concrete exchange and chat snapshots at which the correctness lemmas are instantiated below.\<close>

definition btc :: instrument where
  "btc = \<lparr>isymbol = ''BTCUSDT'', iquote = ''USDT'', istatus = ''TRADING'', iextra = [(''pair'', JStr ''BTCUSDT'')]\<rparr>"

definition ethbtc :: instrument where
  "ethbtc = \<lparr>isymbol = ''ETHBTC'', iquote = ''BTC'', istatus = ''TRADING'', iextra = []\<rparr>"

definition settling :: instrument where
  "settling = \<lparr>isymbol = ''LUNAUSDT'', iquote = ''USDT'', istatus = ''SETTLING'', iextra = []\<rparr>"

text \<open>A well-formed snapshot: one funding sample and one candle on every timeframe.\<close>

definition funding_reply :: json where
  "funding_reply = JArr [JObj [(''symbol'', JStr ''BTCUSDT''), (''fundingTime'', JInt 1700000000000),
                               (''fundingRate'', JStr ''0.00010000'')]]"

definition candle_reply :: json where
  "candle_reply = JArr [JArr [JInt 1700000000000, JStr ''43000.00'', JStr ''43010.00'', JStr ''42990.00'', JStr ''43000.10'']]"

definition get_ok :: http where
  "get_ok u = (if u = funding_url ''BTCUSDT'' then Inr funding_reply else Inr candle_reply)"

text \<open>
  The snapshot of \<open>get_ok\<close> in which the 5m candle request of BTCUSDT times out: the
  funding request and the 1m candles succeed, so \<open>fetch_data\<close> fails at the 5m request.
\<close>

definition get_5m_down :: http where
  "get_5m_down u = (if u = klines_url ''BTCUSDT'' ''5m'' then Inl ''Connection timeout'' else get_ok u)"

text \<open>The funding sample of \<open>get_ok\<close>, and candle requests answered by Binance's error object.\<close>

definition get_kl_error :: http where
  "get_kl_error u = (if u = funding_url ''BTCUSDT'' then Inr funding_reply
                     else Inr (JObj [(''code'', JInt (-1121)), (''msg'', JStr ''Invalid symbol.'')]))"

subsection \<open>Lemmas\<close>

lemma dict_get_append_right:
  assumes "k \<in> fst ` set kvs'"
  shows "dict_get (kvs @ kvs') k = dict_get kvs' k"
proof -
  from assms have "map_of (rev kvs') k \<noteq> None" by (simp add: map_of_eq_None_iff)
  then show ?thesis by (auto simp: dict_get_def map_add_def split: option.split)
qed

lemma getitem_instrument:
  "getitem_key (instrument_json i) ''symbol'' = Inr (JStr (isymbol i))"
  "getitem_key (instrument_json i) ''quoteAsset'' = Inr (JStr (iquote i))"
  "getitem_key (instrument_json i) ''status'' = Inr (JStr (istatus i))"
  by (simp_all add: instrument_json_def dict_get_append_right) (simp_all add: dict_get_def)

lemma select_symbols_instruments:
  "select_symbols (map instrument_json is) = Inr (map (JStr \<circ> isymbol) (filter tradable_usdt is))"
  by (induction "is") (simp_all add: getitem_instrument tradable_usdt_def)

lemma select_symbols_instruments_append:
  "select_symbols (map instrument_json is @ rest) =
     ebind (select_symbols rest) (\<lambda>r. Inr (map (JStr \<circ> isymbol) (filter tradable_usdt is) @ r))"
  by (induction "is") (auto simp: getitem_instrument tradable_usdt_def ebind_def split: sum.split)

lemma dict_set_new: "k \<notin> fst ` set kvs \<Longrightarrow> dict_set kvs k v = kvs @ [(k, v)]"
  by (simp add: dict_set_def)

lemma iloc_last_calculate_rsi:
  "closes \<noteq> [] \<Longrightarrow> iloc_last (calculate_rsi closes p) = Inr (last (calculate_rsi closes p))"
proof -
  assume "closes \<noteq> []"
  then have "calculate_rsi closes p \<noteq> []"
    by (metis length_calculate_rsi length_0_conv)
  then show ?thesis by (simp add: iloc_last_def)
qed

lemma fetch_rsi_keys:
  "fetch_rsi get s ivs acc = Inr r \<Longrightarrow> distinct (map fst acc @ ivs) \<Longrightarrow> map fst r = map fst acc @ ivs"
proof (induction ivs arbitrary: acc)
  case Nil
  then show ?case by simp
next
  case (Cons iv ivs)
  from Cons.prems(1) obtain v where rest: "fetch_rsi get s ivs (dict_set acc iv v) = Inr r"
    by (auto simp: ebind_Inr_iff)
  from Cons.prems(2) have new: "iv \<notin> fst ` set acc" by auto
  with Cons.prems(2) have "distinct (map fst (dict_set acc iv v) @ ivs)" by (simp add: dict_set_new)
  with rest Cons.IH have "map fst r = map fst (dict_set acc iv v) @ ivs" by blast
  with new show ?case by (simp add: dict_set_new)
qed

lemma fetch_rsi_needs_klines:
  "fetch_rsi get s ivs acc = Inr r \<Longrightarrow> iv \<in> set ivs \<Longrightarrow> \<exists>j. get (klines_url s iv) = Inr j"
proof (induction get s ivs acc arbitrary: r rule: fetch_rsi.induct)
  case (1 get s acc)
  then show ?case by simp
next
  case (2 get s iv' ivs acc)
  then show ?case
    by (auto simp: ebind_Inr_iff http_json_def split: sum.splits)
qed

lemma fetch_rsi_ok:
  assumes "\<forall>iv\<in>set ivs. get (klines_url s iv) = Inr (kl iv) \<and> kline_closes (kl iv) = Inr (cl iv) \<and> cl iv \<noteq> []"
    and "distinct (map fst acc @ ivs)"
  shows "fetch_rsi get s ivs acc = Inr (acc @ map (\<lambda>iv. (iv, last (calculate_rsi (cl iv) RSI_PERIOD))) ivs)"
  using assms
proof (induction ivs arbitrary: acc)
  case Nil
  then show ?case by simp
next
  case (Cons iv ivs)
  from Cons.prems(2) have new: "iv \<notin> fst ` set acc" by auto
  from Cons.prems(2) new have "distinct (map fst (acc @ [(iv, last (calculate_rsi (cl iv) RSI_PERIOD))]) @ ivs)"
    by simp
  with Cons.prems(1) Cons.IH have
    "fetch_rsi get s ivs (acc @ [(iv, last (calculate_rsi (cl iv) RSI_PERIOD))]) =
     Inr (acc @ (iv, last (calculate_rsi (cl iv) RSI_PERIOD)) # map (\<lambda>iv. (iv, last (calculate_rsi (cl iv) RSI_PERIOD))) ivs)"
    by simp
  with Cons.prems(1) new show ?case
    by (simp add: http_json_def iloc_last_calculate_rsi dict_set_new)
qed

lemma fetch_body_Inr:
  "fetch_body get symbol = Inr (fr, ft, rsi) \<longleftrightarrow>
   (\<exists>fr_data fr0 rate x t. http_json get (funding_url (py_str symbol)) = Inr fr_data \<and>
      getitem_idx fr_data 0 = Inr fr0 \<and> getitem_key fr0 ''fundingRate'' = Inr rate \<and> py_float rate = Inr x \<and>
      getitem_key fr0 ''fundingTime'' = Inr t \<and> to_datetime_ms t = Inr ft \<and>
      fetch_rsi get (py_str symbol) INTERVALS [] = Inr rsi \<and> fr = f_mul x (Fin 100))"
  unfolding fetch_body_def Let_def ebind_Inr_iff by auto

lemma fetch_body_keys:
  assumes "fetch_body get s = Inr (fr, ft, rsi)"
  shows "map fst rsi = INTERVALS"
proof -
  from assms have "fetch_rsi get (py_str s) INTERVALS [] = Inr rsi"
    by (auto simp: fetch_body_Inr)
  then show ?thesis by (rule fetch_rsi_keys [THEN trans]) (simp_all add: INTERVALS_def)
qed

lemma fetch_data_Inl:
  "fetch_body get s = Inl e \<Longrightarrow> fetch_data get s = ([Print (fetch_error_line s e)], (s, None, None, None))"
  by (simp add: fetch_data_def)

lemma fetch_body_kline_failure:
  assumes "iv \<in> set INTERVALS" and "get (klines_url (py_str s) iv) = Inl m"
  shows "\<exists>e. fetch_body get s = Inl e"
proof (cases "fetch_body get s")
  case (Inl e)
  then show ?thesis by simp
next
  case (Inr r)
  then obtain fr ft rsi where "fetch_body get s = Inr (fr, ft, rsi)" by (cases r) auto
  then have "fetch_rsi get (py_str s) INTERVALS [] = Inr rsi" by (auto simp: fetch_body_Inr)
  from fetch_rsi_needs_klines [OF this assms(1)] assms(2) show ?thesis by simp
qed

lemma fetch_body_ok:
  assumes "get (funding_url (py_str s)) = Inr (JArr (JObj kvs # later))"
    and "dict_get kvs ''fundingRate'' = Some rate" and "py_float rate = Inr x"
    and "dict_get kvs ''fundingTime'' = Some t" and "to_datetime_ms t = Inr ft"
    and "\<forall>iv\<in>set INTERVALS. get (klines_url (py_str s) iv) = Inr (kl iv) \<and>
           kline_closes (kl iv) = Inr (cl iv) \<and> cl iv \<noteq> []"
  shows "fetch_body get s = Inr (f_mul x (Fin 100), ft, map (\<lambda>iv. (iv, last (calculate_rsi (cl iv) RSI_PERIOD))) INTERVALS)"
proof -
  have "fetch_rsi get (py_str s) INTERVALS [] = Inr (map (\<lambda>iv. (iv, last (calculate_rsi (cl iv) RSI_PERIOD))) INTERVALS)"
    using fetch_rsi_ok [OF assms(6), of "[]"] by (simp add: INTERVALS_def)
  with assms(1-5) show ?thesis by (simp add: fetch_body_Inr http_json_def py_index_def)
qed

subsection \<open>Correctness of the exchange client\<close>

text \<open>
  C9. On an instrument directory of the documented shape, \<open>get_all_symbols\<close> returns the
  tickers of exactly the USDT-quoted contracts in TRADING status, in directory order.
\<close>

theorem get_all_symbols_directory:
  assumes "get BINANCE_FUTURES_SYMBOLS_URL = Inr (JObj (extra @ [(''symbols'', JArr (map instrument_json is))]))"
  shows "get_all_symbols get = Inr (map (JStr \<circ> isymbol) (filter tradable_usdt is))"
proof -
  have "dict_get (extra @ [(''symbols'', JArr (map instrument_json is))]) ''symbols'' = Some (JArr (map instrument_json is))"
    by (simp add: dict_get_append_right) (simp add: dict_get_def)
  with assms show ?thesis
    by (simp add: get_all_symbols_def http_json_def select_symbols_instruments)
qed

text \<open>
  C10. Per-symbol results are all or nothing: \<open>fetch_data\<close> returns the symbol with
  either no data at all or a funding rate, a funding time and an indicator dict whose keys
  are exactly the configured timeframes 1m, 5m, 15m in this order.
\<close>

theorem fetch_data_all_or_nothing:
  "snd (fetch_data get s) = (s, None, None, None) \<or>
   (\<exists>fr ft rsi. snd (fetch_data get s) = (s, Some fr, Some ft, Some rsi) \<and> map fst rsi = INTERVALS)"
proof (cases "fetch_body get s")
  case (Inl e)
  then show ?thesis by (simp add: fetch_data_Inl)
next
  case (Inr r)
  then obtain fr ft rsi where r: "fetch_body get s = Inr (fr, ft, rsi)" by (cases r) auto
  then have "map fst rsi = INTERVALS" by (rule fetch_body_keys)
  with r show ?thesis by (simp add: fetch_data_def)
qed

text \<open>
  C11. Failure isolation: when the candle request of one configured timeframe fails, the
  symbol gets no data at all for this cycle, and \<open>fetch_data\<close> prints one error line
  instead of raising.
\<close>

theorem fetch_data_kline_failure:
  assumes "iv \<in> set INTERVALS" and "get (klines_url (py_str s) iv) = Inl m"
  shows "\<exists>e. fetch_data get s = ([Print (fetch_error_line s e)], (s, None, None, None))"
proof -
  obtain e where "fetch_body get s = Inl e"
    using fetch_body_kline_failure [of iv get s m] assms by blast
  then show ?thesis by (auto simp: fetch_data_Inl)
qed

text \<open>
  C12. The successful path: from a funding sample with a rate and a time and non-empty
  candle series on every timeframe, \<open>fetch_data\<close> returns the rate times 100, the funding
  time, and for each timeframe the last indicator entry of its closing prices.
\<close>

theorem fetch_data_ok:
  assumes "get (funding_url (py_str s)) = Inr (JArr (JObj kvs # later))"
    and "dict_get kvs ''fundingRate'' = Some rate" and "py_float rate = Inr x"
    and "dict_get kvs ''fundingTime'' = Some t" and "to_datetime_ms t = Inr ft"
    and "\<forall>iv\<in>set INTERVALS. get (klines_url (py_str s) iv) = Inr (kl iv) \<and>
           kline_closes (kl iv) = Inr (cl iv) \<and> cl iv \<noteq> []"
  shows "fetch_data get s = ([], (s, Some (f_mul x (Fin 100)), Some ft,
           Some (map (\<lambda>iv. (iv, last (calculate_rsi (cl iv) RSI_PERIOD))) INTERVALS)))"
  using fetch_body_ok [OF assms] by (simp add: fetch_data_def)

text \<open>
  C13. An error reply instead of a funding sample (the exchange answers an unknown ticker
  with a JSON object such as \<open>{"code": -1121, "msg": "Invalid symbol."}\<close>): indexing it
  with 0 raises \<open>KeyError(0)\<close>, and the symbol is skipped with the line
  \<open>"<symbol> verisi al\<i>namad\<i>: 0"\<close>.
\<close>

theorem fetch_data_error_reply:
  assumes "get (funding_url (py_str s)) = Inr (JObj kvs)"
  shows "fetch_data get s = ([Print (fetch_error_line s (KeyError ''0''))], (s, None, None, None))"
  using assms by (simp add: fetch_data_def fetch_body_def http_json_def int_str_def render_simps)

text \<open>
  C26. A candle request answered by an error object (such as Binance's
  \<open>{"code": -1121, "msg": "Invalid symbol."}\<close>) skips the symbol with the printed error
  \<open>string index out of range\<close>: iterating the dict yields its keys, and \<open>k[4]\<close> on the
  first key, of at most four characters, raises.
\<close>

theorem fetch_data_candle_error_object:
  assumes "get (funding_url (py_str s)) = Inr (JArr (JObj kvs # later))"
    and "dict_get kvs ''fundingRate'' = Some rate" and "py_float rate = Inr x"
    and "dict_get kvs ''fundingTime'' = Some t" and "to_datetime_ms t = Inr ft"
    and "get (klines_url (py_str s) ''1m'') = Inr (JObj ((k, c) # kes))" and "length k \<le> 4"
  shows "fetch_data get s =
           ([Print (fetch_error_line s (IndexError ''string index out of range''))], (s, None, None, None))"
proof -
  have "fetch_rsi get (py_str s) INTERVALS [] = Inl (IndexError ''string index out of range'')"
    using assms(6,7) by (simp add: INTERVALS_def http_json_def kline_closes_def dict_keys_Cons py_index_def)
  with assms(1-5) have "fetch_body get s = Inl (IndexError ''string index out of range'')"
    by (simp add: fetch_body_def http_json_def py_index_def Let_def)
  then show ?thesis by (simp add: fetch_data_def)
qed

text \<open>
  C27. One malformed directory entry fails the whole universe: an entry quoted in USDT
  without a status field makes \<open>get_all_symbols\<close> raise \<open>KeyError('status')\<close>, whatever
  the well-formed entries around it.
\<close>

theorem get_all_symbols_malformed_entry:
  assumes "get BINANCE_FUTURES_SYMBOLS_URL =
             Inr (JObj (extra @ [(''symbols'', JArr (map instrument_json is @ JObj e # rest))]))"
    and "dict_get e ''quoteAsset'' = Some (JStr ''USDT'')" and "dict_get e ''status'' = None"
  shows "get_all_symbols get = Inl (KeyError (str_repr ''status''))"
proof -
  have "dict_get (extra @ [(''symbols'', JArr (map instrument_json is @ JObj e # rest))]) ''symbols'' =
        Some (JArr (map instrument_json is @ JObj e # rest))"
    by (simp add: dict_get_append_right) (simp add: dict_get_def)
  with assms show ?thesis
    by (simp add: get_all_symbols_def http_json_def select_symbols_instruments_append)
qed

text \<open>
  C29. Round trip of the request URLs: the exchange decodes the candle URL of a symbol and
  a timeframe to the klines endpoint with exactly the parameters \<open>symbol\<close>, \<open>interval\<close>
  and \<open>limit=100\<close>, and the funding URL to the fundingRate endpoint with \<open>symbol\<close> and
  \<open>limit=1\<close>, whenever the arguments contain no \<open>&\<close>.
\<close>

theorem request_urls_roundtrip:
  assumes "CHR ''&'' \<notin> set symbol" and "CHR ''&'' \<notin> set interval"
  shows "url_path (klines_url symbol interval) = ''https://fapi.binance.com/fapi/v1/klines'' \<and>
         query_params (klines_url symbol interval) =
           [(''symbol'', symbol), (''interval'', interval), (''limit'', ''100'')] \<and>
         url_path (funding_url symbol) = ''https://fapi.binance.com/fapi/v1/fundingRate'' \<and>
         query_params (funding_url symbol) = [(''symbol'', symbol), (''limit'', ''1'')]"
  using assms
  by (simp add: url_path_def query_params_def klines_url_def funding_url_def split_on_append split_on_no_sep)

subsection \<open>Witnesses\<close>

theorem get_all_symbols_directory_witness:
  "get_all_symbols (\<lambda>_. Inr (JObj ([] @ [(''symbols'', JArr (map instrument_json [btc, ethbtc, settling]))]))) =
   Inr [JStr ''BTCUSDT'']"
  using get_all_symbols_directory [of "\<lambda>_. Inr (JObj ([] @ [(''symbols'', JArr (map instrument_json [btc, ethbtc, settling]))]))"
      "[]" "[btc, ethbtc, settling]"]
  by (simp add: tradable_usdt_def btc_def ethbtc_def settling_def)

theorem fetch_data_kline_failure_witness:
  "\<exists>e. fetch_data get_5m_down (JStr ''BTCUSDT'') =
       ([Print (fetch_error_line (JStr ''BTCUSDT'') e)], (JStr ''BTCUSDT'', None, None, None))"
proof -
  have "''5m'' \<in> set INTERVALS" by (simp add: INTERVALS_def)
  moreover have "get_5m_down (klines_url (py_str (JStr ''BTCUSDT'')) ''5m'') = Inl ''Connection timeout''"
    by (simp add: get_5m_down_def)
  ultimately show ?thesis by (rule fetch_data_kline_failure)
qed

theorem fetch_data_ok_witness:
  "fetch_data get_ok (JStr ''BTCUSDT'') =
   ([], (JStr ''BTCUSDT'', Some (f_mul (Fin (1 / 10000)) (Fin 100)), Some (Timestamp (1700000000000 * 1000000)),
     Some (map (\<lambda>iv. (iv, last (calculate_rsi [Fin (430001 / 10)] RSI_PERIOD))) INTERVALS)))"
proof -
  have f: "get_ok (funding_url (py_str (JStr ''BTCUSDT''))) =
           Inr (JArr (JObj [(''symbol'', JStr ''BTCUSDT''), (''fundingTime'', JInt 1700000000000),
                            (''fundingRate'', JStr ''0.00010000'')] # []))"
    by (simp add: get_ok_def funding_reply_def)
  have r: "dict_get [(''symbol'', JStr ''BTCUSDT''), (''fundingTime'', JInt 1700000000000),
                     (''fundingRate'', JStr ''0.00010000'')] ''fundingRate'' = Some (JStr ''0.00010000'')"
    and t: "dict_get [(''symbol'', JStr ''BTCUSDT''), (''fundingTime'', JInt 1700000000000),
                     (''fundingRate'', JStr ''0.00010000'')] ''fundingTime'' = Some (JInt 1700000000000)"
    by (simp_all add: dict_get_def)
  have x: "py_float (JStr ''0.00010000'') = Inr (Fin (1 / 10000))"
    by (simp add: float_parse_simps)
  have ft: "to_datetime_ms (JInt 1700000000000) = Inr (Timestamp (1700000000000 * 1000000))"
    by (simp add: ts_checked_def)
  have k: "\<forall>iv\<in>set INTERVALS. get_ok (klines_url (py_str (JStr ''BTCUSDT'')) iv) = Inr candle_reply \<and>
             kline_closes candle_reply = Inr [Fin (430001 / 10)] \<and> [Fin (430001 / 10)] \<noteq> []"
    by (simp add: INTERVALS_def get_ok_def funding_url_def klines_url_def candle_reply_def
        kline_closes_def py_index_def float_parse_simps)
  show ?thesis
    using fetch_data_ok [where get = get_ok and s = "JStr ''BTCUSDT''" and kl = "\<lambda>_. candle_reply"
        and cl = "\<lambda>_. [Fin (430001 / 10)]", OF f r x t ft k] by simp
qed

theorem fetch_data_error_reply_witness:
  "fetch_data (\<lambda>_. Inr (JObj [(''code'', JInt (-1121)), (''msg'', JStr ''Invalid symbol.'')])) (JStr ''XYZUSDT'') =
   ([Print (fetch_error_line (JStr ''XYZUSDT'') (KeyError ''0''))], (JStr ''XYZUSDT'', None, None, None))"
  using fetch_data_error_reply [of "\<lambda>_. Inr (JObj [(''code'', JInt (-1121)), (''msg'', JStr ''Invalid symbol.'')])"]
  by simp

theorem fetch_data_candle_error_object_witness:
  "fetch_data get_kl_error (JStr ''BTCUSDT'') =
   ([Print (fetch_error_line (JStr ''BTCUSDT'') (IndexError ''string index out of range''))], (JStr ''BTCUSDT'', None, None, None))"
proof -
  have f: "get_kl_error (funding_url (py_str (JStr ''BTCUSDT''))) =
           Inr (JArr (JObj [(''symbol'', JStr ''BTCUSDT''), (''fundingTime'', JInt 1700000000000),
                            (''fundingRate'', JStr ''0.00010000'')] # []))"
    by (simp add: get_kl_error_def funding_reply_def)
  have r: "dict_get [(''symbol'', JStr ''BTCUSDT''), (''fundingTime'', JInt 1700000000000),
                     (''fundingRate'', JStr ''0.00010000'')] ''fundingRate'' = Some (JStr ''0.00010000'')"
    and t: "dict_get [(''symbol'', JStr ''BTCUSDT''), (''fundingTime'', JInt 1700000000000),
                     (''fundingRate'', JStr ''0.00010000'')] ''fundingTime'' = Some (JInt 1700000000000)"
    by (simp_all add: dict_get_def)
  have x: "py_float (JStr ''0.00010000'') = Inr (Fin (1 / 10000))"
    by (simp add: float_parse_simps)
  have ft: "to_datetime_ms (JInt 1700000000000) = Inr (Timestamp (1700000000000 * 1000000))"
    by (simp add: ts_checked_def)
  have k: "get_kl_error (klines_url (py_str (JStr ''BTCUSDT'')) ''1m'') =
           Inr (JObj ((''code'', JInt (-1121)) # [(''msg'', JStr ''Invalid symbol.'')]))"
    by (simp add: get_kl_error_def funding_url_def klines_url_def)
  have l: "length ''code'' \<le> 4" by simp
  show ?thesis by (rule fetch_data_candle_error_object [OF f r x t ft k l])
qed

theorem get_all_symbols_malformed_entry_witness:
  "get_all_symbols (\<lambda>_. Inr (JObj ([] @ [(''symbols'', JArr (map instrument_json [btc] @ JObj
      [(''symbol'', JStr ''NEWUSDT''), (''quoteAsset'', JStr ''USDT'')] # [instrument_json ethbtc]))]))) =
   Inl (KeyError (str_repr ''status''))"
proof -
  have q: "dict_get [(''symbol'', JStr ''NEWUSDT''), (''quoteAsset'', JStr ''USDT'')] ''quoteAsset'' = Some (JStr ''USDT'')"
    and st: "dict_get [(''symbol'', JStr ''NEWUSDT''), (''quoteAsset'', JStr ''USDT'')] ''status'' = None"
    by (simp_all add: dict_get_def)
  show ?thesis
    using get_all_symbols_malformed_entry [of "\<lambda>_. Inr (JObj ([] @ [(''symbols'', JArr (map instrument_json [btc] @ JObj
      [(''symbol'', JStr ''NEWUSDT''), (''quoteAsset'', JStr ''USDT'')] # [instrument_json ethbtc]))]))"
      "[]" "[btc]" "[(''symbol'', JStr ''NEWUSDT''), (''quoteAsset'', JStr ''USDT'')]" "[instrument_json ethbtc]"] q st
    by simp
qed

theorem request_urls_roundtrip_witness:
  "query_params (klines_url ''BTCUSDT'' ''5m'') = [(''symbol'', ''BTCUSDT''), (''interval'', ''5m''), (''limit'', ''100'')] \<and>
   query_params (funding_url ''BTCUSDT'') = [(''symbol'', ''BTCUSDT''), (''limit'', ''1'')]"
  using request_urls_roundtrip [of "''BTCUSDT''" "''5m''"] by simp

end
