(* ===== verification/Signal.thy ===== *)
theory Signal
  imports PyJson
begin

text \<open>
  The signal evaluator: the body of the loop of \<open>check_symbols\<close> in \<open>src/bot.py\<close> (lines
  85-92) that turns one symbol's funding rate, next funding time and indicator values into
  the report text, appending a warning line when the alert rule fires. The text is the
  UTF-8 byte string \<open>send_message\<close> delivers. The specification describes the same rule as
  a classification into none, long pressure and short pressure; \<open>classify\<close> is that
  classification and \<open>report_text_classify\<close> shows that the code's text is the report
  followed by exactly the warning line of the classification.
\<close>

definition FUNDING_THRESHOLD :: real where
  "FUNDING_THRESHOLD = 1 / 2"

definition NL :: char where
  "NL = CHR 0x0A"

text \<open>U+1F4B9 (chart with yen), U+26A0 U+FE0F (warning sign), in UTF-8.\<close>

definition CHART_EMOJI :: string where
  "CHART_EMOJI = [CHR 0xF0, CHR 0x9F, CHR 0x92, CHR 0xB9]"

definition WARNING_EMOJI :: string where
  "WARNING_EMOJI = [CHR 0xE2, CHR 0x9A, CHR 0xA0, CHR 0xEF, CHR 0xB8, CHR 0x8F]"

text \<open>\<open>"\n\<warning> A\<S>IRI LONG y\<o>nl\<u> bask\<i>!"\<close> and its SHORT twin (Turkish letters in UTF-8).\<close>

definition alert_line :: "string \<Rightarrow> string" where
  "alert_line side = NL # WARNING_EMOJI @ '' A'' @ [CHR 0xC5, CHR 0x9E] @ ''IRI '' @ side @ '' y'' @
     [CHR 0xC3, CHR 0xB6] @ ''nl'' @ [CHR 0xC3, CHR 0xBC] @ '' bask'' @ [CHR 0xC4, CHR 0xB1] @ ''!''"

definition LONG_ALERT :: string where
  "LONG_ALERT = alert_line ''LONG''"

definition SHORT_ALERT :: string where
  "SHORT_ALERT = alert_line ''SHORT''"

text \<open>\<open>rsi_text = "\n".join([f"{k} RSI: {v:.2f}" for k, v in rsi_dict.items()])\<close>.\<close>

definition rsi_text :: "(string \<times> pyfloat) list \<Rightarrow> string" where
  "rsi_text rsi_dict = join_str [NL] (map (\<lambda>(k, v). k @ '' RSI: '' @ format_fixed 2 v) rsi_dict)"

text \<open>\<open>text = f"\<chart> {s}\nFunding: {fr:.4f}%\nNext Funding: {ft}\n{rsi_text}"\<close>.\<close>

definition base_text :: "json \<Rightarrow> pyfloat \<Rightarrow> pytime \<Rightarrow> (string \<times> pyfloat) list \<Rightarrow> string" where
  "base_text s fr ft rsi_dict =
     CHART_EMOJI @ CHR '' '' # py_str s @ NL # ''Funding: '' @ format_fixed 4 fr @ ''%'' @
     NL # ''Next Funding: '' @ time_str ft @ NL # rsi_text rsi_dict"

text \<open>The text of one symbol with the alert rule: the \<open>if\<close>/\<open>elif\<close> of lines 89-92.\<close>

definition report_text :: "json \<Rightarrow> pyfloat \<Rightarrow> pytime \<Rightarrow> (string \<times> pyfloat) list \<Rightarrow> string" where
  "report_text s fr ft rsi_dict =
     (let text = base_text s fr ft rsi_dict
      in if f_less (Fin FUNDING_THRESHOLD) fr \<and> list_all (\<lambda>v. f_less (Fin 70) v) (map snd rsi_dict)
         then text @ LONG_ALERT
         else if f_less fr (Fin (- FUNDING_THRESHOLD)) \<and> list_all (\<lambda>v. f_less v (Fin 30)) (map snd rsi_dict)
         then text @ SHORT_ALERT
         else text)"

subsection \<open>The specification's classification\<close>

datatype classification = NO_SIGNAL | LONG_PRESSURE | SHORT_PRESSURE

text \<open>
  Long pressure: funding rate above the threshold and every timeframe's indicator above
  70; short pressure: funding below minus the threshold and every indicator below 30.
\<close>

definition long_pressure :: "real \<Rightarrow> pyfloat \<Rightarrow> pyfloat list \<Rightarrow> bool" where
  "long_pressure thr fr vs = (f_less (Fin thr) fr \<and> (\<forall>v\<in>set vs. f_less (Fin 70) v))"

definition short_pressure :: "real \<Rightarrow> pyfloat \<Rightarrow> pyfloat list \<Rightarrow> bool" where
  "short_pressure thr fr vs = (f_less fr (Fin (- thr)) \<and> (\<forall>v\<in>set vs. f_less v (Fin 30)))"

definition classify :: "real \<Rightarrow> pyfloat \<Rightarrow> pyfloat list \<Rightarrow> classification" where
  "classify thr fr vs =
     (if long_pressure thr fr vs then LONG_PRESSURE
      else if short_pressure thr fr vs then SHORT_PRESSURE else NO_SIGNAL)"

primrec alert_suffix :: "classification \<Rightarrow> string" where
  "alert_suffix NO_SIGNAL = []"
| "alert_suffix LONG_PRESSURE = LONG_ALERT"
| "alert_suffix SHORT_PRESSURE = SHORT_ALERT"

lemmas report_eval_simps = report_text_def base_text_def rsi_text_def FUNDING_THRESHOLD_def
  CHART_EMOJI_def WARNING_EMOJI_def LONG_ALERT_def SHORT_ALERT_def alert_line_def NL_def

subsection \<open>Lemmas\<close>

lemma f_less_trans: "f_less x y \<Longrightarrow> f_less y z \<Longrightarrow> f_less x z"
  by (cases x; cases y; cases z) auto

lemma long_short_exclusive:
  assumes "0 \<le> thr"
  shows "\<not> (long_pressure thr fr vs \<and> short_pressure thr fr vs)"
proof
  assume "long_pressure thr fr vs \<and> short_pressure thr fr vs"
  then have "f_less (Fin thr) fr" "f_less fr (Fin (- thr))"
    by (simp_all add: long_pressure_def short_pressure_def)
  then have "f_less (Fin thr) (Fin (- thr))" by (rule f_less_trans)
  with assms show False by simp
qed

lemma report_text_extends: "\<exists>sfx. report_text s fr ft rsi_dict = base_text s fr ft rsi_dict @ sfx"
  by (simp add: report_text_def Let_def split: if_split)

text \<open>
  C7. Refinement: the text \<open>check_symbols\<close> sends for a symbol is the report followed by
  the warning line of the specification's classification (none, long or short pressure)
  with the configured threshold.
\<close>

theorem report_text_classify:
  "report_text s fr ft rsi_dict =
   base_text s fr ft rsi_dict @ alert_suffix (classify FUNDING_THRESHOLD fr (map snd rsi_dict))"
  by (simp add: report_text_def classify_def long_pressure_def short_pressure_def list_all_iff Let_def)

text \<open>
  C8. An undefined indicator value (NaN, as for a symbol with fewer than 15 candles on a
  timeframe) never raises an alert: every comparison with NaN is false, so the text is the
  bare report whatever the funding rate.
\<close>

theorem report_text_nan_no_alert:
  assumes "NaN \<in> set (map snd rsi_dict)"
  shows "report_text s fr ft rsi_dict = base_text s fr ft rsi_dict"
proof -
  from assms have "\<not> list_all (\<lambda>v. f_less (Fin 70) v) (map snd rsi_dict)"
    and "\<not> list_all (\<lambda>v. f_less v (Fin 30)) (map snd rsi_dict)"
    by (metis f_less_NaN list_all_iff)+
  then show ?thesis by (simp add: report_text_def Let_def)
qed

theorem report_text_nan_no_alert_witness:
  "NaN \<in> set (map snd [(''1m'', Fin 75), (''5m'', NaN), (''15m'', Fin 90)]) \<and>
   report_text (JStr ''BTCUSDT'') (Fin (3/5)) NaT [(''1m'', Fin 75), (''5m'', NaN), (''15m'', Fin 90)] =
   base_text (JStr ''BTCUSDT'') (Fin (3/5)) NaT [(''1m'', Fin 75), (''5m'', NaN), (''15m'', Fin 90)]"
  using report_text_nan_no_alert [of "[(''1m'', Fin 75), (''5m'', NaN), (''15m'', Fin 90)]"] by simp

text \<open>
  C34. The alert thresholds are strict and act as a band: one timeframe value between 30
  and 70 inclusive (such as exactly 70 or exactly 30) rules out both warnings, whatever
  the funding rate; and a funding rate of exactly 0.5 or exactly -0.5 never alerts.
\<close>

theorem report_text_no_alert_band:
  assumes "(k, Fin v) \<in> set rsi_dict" and "30 \<le> v" and "v \<le> 70"
  shows "report_text s fr ft rsi_dict = base_text s fr ft rsi_dict \<and>
         report_text s (Fin (1/2)) ft r = base_text s (Fin (1/2)) ft r \<and>
         report_text s (Fin (- 1/2)) ft r = base_text s (Fin (- 1/2)) ft r"
proof -
  from assms(1) have m: "Fin v \<in> set (map snd rsi_dict)" by force
  from assms(2,3) have "\<not> f_less (Fin 70) (Fin v)" and "\<not> f_less (Fin v) (Fin 30)" by simp_all
  with m have "\<not> list_all (\<lambda>v. f_less (Fin 70) v) (map snd rsi_dict)"
    and "\<not> list_all (\<lambda>v. f_less v (Fin 30)) (map snd rsi_dict)"
    unfolding list_all_iff by blast+
  then show ?thesis by (simp add: report_text_def FUNDING_THRESHOLD_def Let_def)
qed

theorem report_text_no_alert_band_witness:
  "report_text (JStr ''BTCUSDT'') (Fin (3/5)) NaT [(''1m'', Fin 75), (''5m'', Fin 70), (''15m'', Fin 90)] =
     base_text (JStr ''BTCUSDT'') (Fin (3/5)) NaT [(''1m'', Fin 75), (''5m'', Fin 70), (''15m'', Fin 90)] \<and>
   report_text (JStr ''BTCUSDT'') (Fin (1/2)) NaT [(''1m'', Fin 75)] = base_text (JStr ''BTCUSDT'') (Fin (1/2)) NaT [(''1m'', Fin 75)] \<and>
   report_text (JStr ''BTCUSDT'') (Fin (- 1/2)) NaT [(''1m'', Fin 75)] = base_text (JStr ''BTCUSDT'') (Fin (- 1/2)) NaT [(''1m'', Fin 75)]"
  using report_text_no_alert_band [of "''5m''" 70 "[(''1m'', Fin 75), (''5m'', Fin 70), (''15m'', Fin 90)]"
      "JStr ''BTCUSDT''" "Fin (3/5)" NaT "[(''1m'', Fin 75)]"] by simp

end
