(* ===== verification/Cycle.thy ===== *)
theory Cycle
  imports Exchange Signal
begin

text \<open>
  One sampling cycle, \<open>check_symbols\<close> of \<open>src/bot.py\<close> (lines 77-95): fetch the symbol
  universe, then for each symbol in order fetch its data, skip it when \<open>fr\<close> or
  \<open>rsi_dict\<close> is None, otherwise print its report and send it to the chat. The world of a
  cycle is the exchange snapshot and the outcome of each \<open>send_message\<close> call (success,
  or the text of the error it raises). Nothing inside \<open>check_symbols\<close> catches an error
  of \<open>get_all_symbols\<close> or of \<open>send_message\<close>: such an error ends the cycle and is
  returned with the effects produced until then. The abstract view \<open>symbol_report\<close> is
  the report a symbol contributes, if any.
\<close>

record world =
  http_get :: http
  tg_send :: "string option \<Rightarrow> string \<Rightarrow> string + unit"

text \<open>\<open>{ft}\<close> of a value that may be None.\<close>

definition ft_value :: "pytime option \<Rightarrow> pytime" where
  "ft_value ft = (case ft of None \<Rightarrow> NoneTime | Some t \<Rightarrow> t)"

fun check_loop :: "world \<Rightarrow> string option \<Rightarrow> json list \<Rightarrow> event list \<Rightarrow> py_exc option \<times> event list" where
  "check_loop w chat [] acc = (None, acc)"
| "check_loop w chat (symbol # symbols) acc =
     (let (evs, s, fr, ft, rsi_dict) = fetch_data (http_get w) symbol
      in if fr = None \<or> rsi_dict = None then check_loop w chat symbols (acc @ evs)
         else (let text = report_text s (the fr) (ft_value ft) (the rsi_dict);
                   acc' = acc @ evs @ [Print text]
               in case tg_send w chat text of
                    Inl m \<Rightarrow> (Some (TelegramError m), acc')
                  | Inr _ \<Rightarrow> check_loop w chat symbols (acc' @ [Sent text])))"

definition check_symbols :: "world \<Rightarrow> string option \<Rightarrow> py_exc option \<times> event list" where
  "check_symbols w chat =
     (case get_all_symbols (http_get w) of
        Inl e \<Rightarrow> (Some e, [])
      | Inr symbols \<Rightarrow> check_loop w chat symbols [])"

subsection \<open>Abstract view\<close>

text \<open>The report a symbol contributes to a cycle, or None when it is skipped.\<close>

definition symbol_report :: "http \<Rightarrow> json \<Rightarrow> string option" where
  "symbol_report get symbol =
     (case snd (fetch_data get symbol) of
        (s, Some fr, ft, Some rsi_dict) \<Rightarrow> Some (report_text s fr (ft_value ft) rsi_dict)
      | _ \<Rightarrow> None)"

text \<open>The texts delivered to the chat, in order.\<close>

fun sent_texts :: "event list \<Rightarrow> string list" where
  "sent_texts [] = []"
| "sent_texts (Sent t # es) = t # sent_texts es"
| "sent_texts (_ # es) = sent_texts es"

definition sends_succeed :: "world \<Rightarrow> string option \<Rightarrow> bool" where
  "sends_succeed w chat = (\<forall>t. tg_send w chat t = Inr ())"

text \<open>
  Print before send: scanning a trace, each delivered text is the text printed just before
  it, unless \<open>exempt\<close> allows it to be sent without (\<open>prev\<close> is the event before).
\<close>

fun printed_before_sent :: "(string \<Rightarrow> bool) \<Rightarrow> event option \<Rightarrow> event list \<Rightarrow> bool" where
  "printed_before_sent exempt prev [] = True"
| "printed_before_sent exempt prev (Sent t # es) =
     ((exempt t \<or> prev = Some (Print t)) \<and> printed_before_sent exempt (Some (Sent t)) es)"
| "printed_before_sent exempt prev (e # es) = printed_before_sent exempt (Some e) es"

subsection \<open>Test snapshots\<close>

text \<open>Concrete exchange and chat snapshots at which the correctness lemmas are instantiated below.\<close>

definition get_cycle :: http where
  "get_cycle u = (if u = BINANCE_FUTURES_SYMBOLS_URL
                  then Inr (JObj [(''symbols'', JArr (map instrument_json [btc, ethbtc, settling]))])
                  else get_ok u)"

text \<open>A snapshot with one funding sample and one candle per timeframe, and a chat that rejects every message.\<close>

definition get_min :: http where
  "get_min u = (if u = funding_url ''XUSDT'' then Inr (JArr [JObj [(''fundingRate'', JFloat (Fin 1)), (''fundingTime'', JNull)]])
                else Inr (JArr [JArr [JInt 0, JInt 0, JInt 0, JInt 0, JInt 5]]))"

definition chat_down :: "string option \<Rightarrow> string \<Rightarrow> string + unit" where
  "chat_down chat text = Inl ''Forbidden: bot was blocked by the user''"

subsection \<open>Lemmas\<close>

lemma sent_texts_append [simp]: "sent_texts (xs @ ys) = sent_texts xs @ sent_texts ys"
  by (induction xs rule: sent_texts.induct) simp_all

lemma sent_texts_fetch_data [simp]: "sent_texts (fst (fetch_data get s)) = []"
  by (simp add: fetch_data_def split: sum.split prod.split)

lemma fetch_data_fst_symbol: "fst (snd (fetch_data get s)) = s"
  by (simp add: fetch_data_def split: sum.split prod.split)

text \<open>The step of the loop for one symbol, in terms of its abstract report.\<close>

lemma check_loop_Cons:
  "check_loop w chat (s # ss) acc =
     (case symbol_report (http_get w) s of
        None \<Rightarrow> check_loop w chat ss (acc @ fst (fetch_data (http_get w) s))
      | Some text \<Rightarrow>
          (case tg_send w chat text of
             Inl m \<Rightarrow> (Some (TelegramError m), acc @ fst (fetch_data (http_get w) s) @ [Print text])
           | Inr _ \<Rightarrow> check_loop w chat ss (acc @ fst (fetch_data (http_get w) s) @ [Print text, Sent text])))"
proof -
  obtain evs s' fr ft rsi where fd: "fetch_data (http_get w) s = (evs, s', fr, ft, rsi)"
    by (cases "fetch_data (http_get w) s") auto
  have s': "s' = s" using fetch_data_fst_symbol [of "http_get w" s] fd by simp
  show ?thesis
    using fd s' by (cases fr; cases rsi) (simp_all add: symbol_report_def Let_def split: sum.split)
qed

declare check_loop.simps(2) [simp del]

lemma check_loop_log:
  "check_loop w chat ss (acc @ tail_evs) = (fst (check_loop w chat ss tail_evs), acc @ snd (check_loop w chat ss tail_evs))"
proof (induction ss arbitrary: tail_evs)
  case Nil
  then show ?case by simp
next
  case (Cons s ss)
  then show ?case
    by (simp add: check_loop_Cons split: option.split sum.split)
qed

lemma check_loop_all_sent:
  assumes "sends_succeed w chat"
  shows "fst (check_loop w chat ss acc) = None \<and>
         sent_texts (snd (check_loop w chat ss acc)) = sent_texts acc @ List.map_filter (symbol_report (http_get w)) ss"
  using assms
proof (induction ss arbitrary: acc)
  case Nil
  then show ?case by (simp)
next
  case (Cons s ss)
  then show ?case
    by (auto simp: check_loop_Cons sends_succeed_def split: option.split)
qed

lemma symbol_report_None_iff:
  "symbol_report get s = None \<longleftrightarrow> (\<exists>e. fetch_body get s = Inl e)"
  by (auto simp: symbol_report_def fetch_data_def split: sum.split prod.split)

lemma symbol_report_fetch_body:
  "fetch_body get s = Inr (fr, ft, rsi) \<Longrightarrow> symbol_report get s = Some (report_text s fr ft rsi)"
  by (simp add: symbol_report_def fetch_data_def ft_value_def)

lemma fetch_data_fst_Inl: "fetch_body get s = Inl e \<Longrightarrow> fst (fetch_data get s) = [Print (fetch_error_line s e)]"
  by (simp add: fetch_data_def)

lemma printed_before_sent_append:
  "printed_before_sent ex prev (xs @ ys) =
     (printed_before_sent ex prev xs \<and> printed_before_sent ex (if xs = [] then prev else Some (last xs)) ys)"
  by (induction ex prev xs rule: printed_before_sent.induct) auto

lemma printed_before_sent_fetch_data: "printed_before_sent ex prev (fst (fetch_data get s))"
  by (simp add: fetch_data_def split: sum.split prod.split)

lemma printed_before_sent_check_loop:
  "printed_before_sent ex prev acc \<Longrightarrow> printed_before_sent ex prev (snd (check_loop w chat ss acc))"
proof (induction ss arbitrary: acc)
  case Nil
  then show ?case by simp
next
  case (Cons s ss)
  then show ?case
    by (auto simp: check_loop_Cons printed_before_sent_append printed_before_sent_fetch_data
        split: option.split sum.split)
qed

lemma printed_before_sent_check_symbols:
  assumes "check_symbols w chat = (e, evs)"
  shows "printed_before_sent ex prev evs"
proof (cases "get_all_symbols (http_get w)")
  case (Inl e')
  with assms show ?thesis by (simp add: check_symbols_def)
next
  case (Inr syms)
  with assms have "evs = snd (check_loop w chat syms [])" by (simp add: check_symbols_def)
  then show ?thesis using printed_before_sent_check_loop [of ex prev "[]" w chat syms] by simp
qed

subsection \<open>Correctness of one cycle\<close>

text \<open>
  C14. When every delivery succeeds, a cycle over the universe ends without error and
  delivers, in universe order, exactly one text per symbol whose data could be fetched,
  namely its report, whatever the report's classification; skipped symbols deliver
  nothing.
\<close>

theorem check_symbols_delivers:
  assumes "sends_succeed w chat" and "get_all_symbols (http_get w) = Inr symbols"
  shows "fst (check_symbols w chat) = None \<and>
         sent_texts (snd (check_symbols w chat)) = List.map_filter (symbol_report (http_get w)) symbols"
  using check_loop_all_sent [OF assms(1), of symbols "[]"] assms(2) by (simp add: check_symbols_def)

text \<open>
  C15. A symbol whose candle request fails on one timeframe is skipped: the cycle prints
  its error line and goes on with the next symbol, exactly as if the symbol were absent.
\<close>

theorem check_loop_skips_failed_symbol:
  assumes "iv \<in> set INTERVALS" and "http_get w (klines_url (py_str s) iv) = Inl m"
  shows "\<exists>e. check_loop w chat (s # symbols) acc = check_loop w chat symbols (acc @ [Print (fetch_error_line s e)])"
proof -
  obtain e where e: "fetch_body (http_get w) s = Inl e"
    using fetch_body_kline_failure [of iv "http_get w" s m] assms by blast
  then have "symbol_report (http_get w) s = None" by (auto simp: symbol_report_None_iff)
  with e show ?thesis by (auto simp: check_loop_Cons fetch_data_fst_Inl)
qed

text \<open>
  C16. A failed delivery ends the cycle: the error of \<open>send_message\<close> is not caught
  inside \<open>check_symbols\<close>, so no later symbol of the universe is fetched or reported.
\<close>

theorem check_loop_send_failure:
  assumes "symbol_report (http_get w) s = Some text" and "tg_send w chat text = Inl m"
  shows "check_loop w chat (s # symbols) acc =
         (Some (TelegramError m), acc @ fst (fetch_data (http_get w) s) @ [Print text])"
  using assms by (simp add: check_loop_Cons)

subsection \<open>Witnesses\<close>

theorem check_symbols_delivers_witness:
  "fst (check_symbols \<lparr>http_get = get_cycle, tg_send = (\<lambda>_ _. Inr ())\<rparr> (Some ''-100123'')) = None \<and>
   sent_texts (snd (check_symbols \<lparr>http_get = get_cycle, tg_send = (\<lambda>_ _. Inr ())\<rparr> (Some ''-100123''))) =
   List.map_filter (symbol_report get_cycle) [JStr ''BTCUSDT'']"
proof -
  have "dict_get [(''symbols'', JArr (map instrument_json [btc, ethbtc, settling]))] ''symbols'' =
        Some (JArr (map instrument_json [btc, ethbtc, settling]))"
    by (simp add: dict_get_def)
  then have u: "get_all_symbols get_cycle = Inr [JStr ''BTCUSDT'']"
    by (simp add: get_all_symbols_def get_cycle_def http_json_def getitem_instrument)
       (simp add: btc_def ethbtc_def settling_def)
  have "sends_succeed \<lparr>http_get = get_cycle, tg_send = (\<lambda>_ _. Inr ())\<rparr> (Some ''-100123'')"
    by (simp add: sends_succeed_def)
  from check_symbols_delivers [OF this] u show ?thesis by simp
qed

theorem check_loop_skips_failed_symbol_witness:
  "\<exists>e. check_loop \<lparr>http_get = get_5m_down, tg_send = (\<lambda>_ _. Inr ())\<rparr> (Some ''-100123'') [JStr ''BTCUSDT'', JStr ''ETHUSDT''] [] =
       check_loop \<lparr>http_get = get_5m_down, tg_send = (\<lambda>_ _. Inr ())\<rparr> (Some ''-100123'') [JStr ''ETHUSDT'']
         ([] @ [Print (fetch_error_line (JStr ''BTCUSDT'') e)])"
proof (rule check_loop_skips_failed_symbol)
  show "''5m'' \<in> set INTERVALS" by (simp add: INTERVALS_def)
  show "http_get \<lparr>http_get = get_5m_down, tg_send = (\<lambda>_ _. Inr ())\<rparr> (klines_url (py_str (JStr ''BTCUSDT'')) ''5m'') =
        Inl ''Connection timeout''"
    by (simp add: get_5m_down_def)
qed

theorem check_loop_send_failure_witness:
  "check_loop \<lparr>http_get = get_min, tg_send = chat_down\<rparr> (Some ''-100123'') [JStr ''XUSDT'', JStr ''YUSDT''] [] =
   (Some (TelegramError ''Forbidden: bot was blocked by the user''),
    [] @ fst (fetch_data get_min (JStr ''XUSDT'')) @
    [Print (report_text (JStr ''XUSDT'') (f_mul (Fin 1) (Fin 100)) NoneTime [(''1m'', NaN), (''5m'', NaN), (''15m'', NaN)])])"
proof -
  have rsi: "calculate_rsi [Fin 5] RSI_PERIOD = [NaN]"
    by (simp add: rsi_eval_simps RSI_PERIOD_def)
  have "fetch_body get_min (JStr ''XUSDT'') = Inr (f_mul (Fin 1) (Fin 100), NoneTime, [(''1m'', NaN), (''5m'', NaN), (''15m'', NaN)])"
    by (simp add: fetch_body_def get_min_def http_json_def py_index_def INTERVALS_def funding_url_def klines_url_def
        kline_closes_def rsi iloc_last_def dict_set_def dict_get_def FLOAT_OVERFLOW_def)
  then have "symbol_report (http_get \<lparr>http_get = get_min, tg_send = chat_down\<rparr>) (JStr ''XUSDT'') =
      Some (report_text (JStr ''XUSDT'') (f_mul (Fin 1) (Fin 100)) NoneTime [(''1m'', NaN), (''5m'', NaN), (''15m'', NaN)])"
    by (simp add: symbol_report_fetch_body)
  moreover have "tg_send \<lparr>http_get = get_min, tg_send = chat_down\<rparr> (Some ''-100123'')
      (report_text (JStr ''XUSDT'') (f_mul (Fin 1) (Fin 100)) NoneTime [(''1m'', NaN), (''5m'', NaN), (''15m'', NaN)]) =
      Inl ''Forbidden: bot was blocked by the user''"
    by (simp add: chat_down_def)
  ultimately have "check_loop \<lparr>http_get = get_min, tg_send = chat_down\<rparr> (Some ''-100123'') [JStr ''XUSDT'', JStr ''YUSDT''] [] =
    (Some (TelegramError ''Forbidden: bot was blocked by the user''),
     [] @ fst (fetch_data (http_get \<lparr>http_get = get_min, tg_send = chat_down\<rparr>) (JStr ''XUSDT'')) @
     [Print (report_text (JStr ''XUSDT'') (f_mul (Fin 1) (Fin 100)) NoneTime [(''1m'', NaN), (''5m'', NaN), (''15m'', NaN)])])"
    by (rule check_loop_send_failure)
  then show ?thesis by simp
qed

text \<open>
  C32. A funding sample whose \<open>fundingTime\<close> is null is not treated as missing data:
  \<open>pd.to_datetime(None)\<close> is None, so the symbol is reported, and its report carries the
  line \<open>Next Funding: None\<close>.
\<close>

theorem symbol_report_null_time:
  assumes "get (funding_url (py_str s)) = Inr (JArr (JObj kvs # later))"
    and "dict_get kvs ''fundingRate'' = Some rate" and "py_float rate = Inr x"
    and "dict_get kvs ''fundingTime'' = Some JNull"
    and "\<forall>iv\<in>set INTERVALS. get (klines_url (py_str s) iv) = Inr (kl iv) \<and>
           kline_closes (kl iv) = Inr (cl iv) \<and> cl iv \<noteq> []"
  shows "\<exists>pre post. symbol_report get s = Some (pre @ ''Next Funding: None'' @ post)"
proof -
  let ?rsi = "map (\<lambda>iv. (iv, last (calculate_rsi (cl iv) RSI_PERIOD))) INTERVALS"
  have "to_datetime_ms JNull = Inr NoneTime" by simp
  from fetch_body_ok [OF assms(1-4) this assms(5)]
  have "symbol_report get s = Some (report_text s (f_mul x (Fin 100)) NoneTime ?rsi)"
    by (rule symbol_report_fetch_body)
  moreover obtain sfx where "report_text s (f_mul x (Fin 100)) NoneTime ?rsi = base_text s (f_mul x (Fin 100)) NoneTime ?rsi @ sfx"
    using report_text_extends by blast
  then have "report_text s (f_mul x (Fin 100)) NoneTime ?rsi =
      (CHART_EMOJI @ CHR '' '' # py_str s @ NL # ''Funding: '' @ format_fixed 4 (f_mul x (Fin 100)) @ ''%'' @ [NL]) @
      ''Next Funding: None'' @ (NL # rsi_text ?rsi @ sfx)"
    by (simp add: base_text_def)
  then have "\<exists>pre post. report_text s (f_mul x (Fin 100)) NoneTime ?rsi = pre @ ''Next Funding: None'' @ post"
    by blast
  ultimately show ?thesis by auto
qed

theorem symbol_report_null_time_witness:
  "\<exists>pre post. symbol_report get_min (JStr ''XUSDT'') = Some (pre @ ''Next Funding: None'' @ post)"
proof (rule symbol_report_null_time)
  show "get_min (funding_url (py_str (JStr ''XUSDT''))) =
        Inr (JArr (JObj [(''fundingRate'', JFloat (Fin 1)), (''fundingTime'', JNull)] # []))"
    by (simp add: get_min_def)
  show "dict_get [(''fundingRate'', JFloat (Fin 1)), (''fundingTime'', JNull)] ''fundingRate'' = Some (JFloat (Fin 1))"
    by (simp add: dict_get_def)
  show "py_float (JFloat (Fin 1)) = Inr (Fin 1)" by simp
  show "dict_get [(''fundingRate'', JFloat (Fin 1)), (''fundingTime'', JNull)] ''fundingTime'' = Some JNull"
    by (simp add: dict_get_def)
  show "\<forall>iv\<in>set INTERVALS. get_min (klines_url (py_str (JStr ''XUSDT'')) iv) =
          Inr ((\<lambda>_. JArr [JArr [JInt 0, JInt 0, JInt 0, JInt 0, JInt 5]]) iv) \<and>
        kline_closes ((\<lambda>_. JArr [JArr [JInt 0, JInt 0, JInt 0, JInt 0, JInt 5]]) iv) = Inr ((\<lambda>_. [Fin 5]) iv) \<and>
        (\<lambda>_. [Fin 5]) iv \<noteq> []"
    by (simp add: INTERVALS_def get_min_def funding_url_def klines_url_def kline_closes_def py_index_def
        FLOAT_OVERFLOW_def)
qed

end
