(* ===== verification/Config.thy ===== *)
theory Config
  imports PyJson
begin

text \<open>
  The process configuration of \<open>src/bot.py\<close> (lines 10-13): \<open>load_dotenv()\<close> adds the
  entries of the \<open>.env\<close> file to the process environment without overriding a variable
  that is already set, then \<open>TELEGRAM_TOKEN\<close>, \<open>CHAT_ID\<close> and \<open>TEST_MODE\<close> are read
  from it. An environment is a map from variable names to values; the \<open>.env\<close> file is given
  by the entries the library parses from it (its syntax is not modelled).
\<close>

text \<open>\<open>load_dotenv()\<close> with its default \<open>override=False\<close>: a variable of the process wins.\<close>

definition load_dotenv :: "(string \<Rightarrow> string option) \<Rightarrow> (string \<Rightarrow> string option) \<Rightarrow> (string \<Rightarrow> string option)" where
  "load_dotenv os_env dotenv = dotenv ++ os_env"

text \<open>\<open>os.getenv(key, default)\<close> over the environment after \<open>load_dotenv()\<close>.\<close>

definition getenv :: "(string \<Rightarrow> string option) \<Rightarrow> string \<Rightarrow> string \<Rightarrow> string" where
  "getenv env k d = (case env k of None \<Rightarrow> d | Some v \<Rightarrow> v)"

text \<open>
  \<open>os.getenv("TEST_MODE", "False").lower() == "true"\<close>. Only ASCII letters matter: no
  other character lowers to one of \<open>t\<close>, \<open>r\<close>, \<open>u\<close>, \<open>e\<close>, so a value with a non-ASCII byte
  is never \<open>"true"\<close> after lowering.
\<close>

definition parse_test_mode :: "(string \<Rightarrow> string option) \<Rightarrow> bool" where
  "parse_test_mode env = (map lower_ascii (getenv env ''TEST_MODE'' ''False'') = ''true'')"

record config =
  TOKEN :: "string option"
  CHAT_ID :: "string option"
  TEST_MODE :: bool

definition load_config :: "(string \<Rightarrow> string option) \<Rightarrow> config" where
  "load_config env =
     \<lparr>TOKEN = env ''TELEGRAM_TOKEN'', CHAT_ID = env ''CHAT_ID'', TEST_MODE = parse_test_mode env\<rparr>"

subsection \<open>Lemmas\<close>

text \<open>Lowering a character gives a lower-case letter exactly for that letter and its capital.\<close>

lemma lower_ascii_eq_lower:
  assumes "97 \<le> (of_char x :: nat)" and "(of_char x :: nat) \<le> 122"
  shows "lower_ascii c = x \<longleftrightarrow> c = x \<or> c = char_of (of_char x - 32 :: nat)"
proof
  assume l: "lower_ascii c = x"
  show "c = x \<or> c = char_of (of_char x - 32 :: nat)"
  proof (cases "65 \<le> (of_char c :: nat) \<and> (of_char c :: nat) \<le> 90")
    case True
    with l have "x = char_of (of_char c + 32 :: nat)" by (simp add: lower_ascii_def)
    then have "(of_char x :: nat) = of_char c + 32" using True by (simp add: of_char_of)
    then have "c = char_of (of_char x - 32 :: nat)" by simp
    then show ?thesis ..
  next
    case False
    with l show ?thesis by (simp add: lower_ascii_def)
  qed
next
  assume "c = x \<or> c = char_of (of_char x - 32 :: nat)"
  then show "lower_ascii c = x"
  proof
    assume "c = x" with assms show ?thesis by (simp add: lower_ascii_def)
  next
    assume c: "c = char_of (of_char x - 32 :: nat)"
    with assms have k: "(of_char c :: nat) = of_char x - 32" by (simp add: of_char_of)
    from assms k have "65 \<le> (of_char c :: nat) \<and> (of_char c :: nat) \<le> 90" by arith
    moreover from assms k have "(of_char c + 32 :: nat) = of_char x" by arith
    ultimately show ?thesis by (simp add: lower_ascii_def)
  qed
qed

lemma lower_ascii_true_letters:
  "lower_ascii c = CHR ''t'' \<longleftrightarrow> c \<in> {CHR ''t'', CHR ''T''}"
  "lower_ascii c = CHR ''r'' \<longleftrightarrow> c \<in> {CHR ''r'', CHR ''R''}"
  "lower_ascii c = CHR ''u'' \<longleftrightarrow> c \<in> {CHR ''u'', CHR ''U''}"
  "lower_ascii c = CHR ''e'' \<longleftrightarrow> c \<in> {CHR ''e'', CHR ''E''}"
proof -
  have "char_of (84::nat) = CHR ''T''" "char_of (82::nat) = CHR ''R''"
    "char_of (85::nat) = CHR ''U''" "char_of (69::nat) = CHR ''E''"
    by code_simp+
  then show
    "lower_ascii c = CHR ''t'' \<longleftrightarrow> c \<in> {CHR ''t'', CHR ''T''}"
    "lower_ascii c = CHR ''r'' \<longleftrightarrow> c \<in> {CHR ''r'', CHR ''R''}"
    "lower_ascii c = CHR ''u'' \<longleftrightarrow> c \<in> {CHR ''u'', CHR ''U''}"
    "lower_ascii c = CHR ''e'' \<longleftrightarrow> c \<in> {CHR ''e'', CHR ''E''}"
    by (simp_all add: lower_ascii_eq_lower)
qed

lemma map_lower_ascii_true:
  "map lower_ascii v = ''true'' \<longleftrightarrow>
   (\<exists>a b c d. v = [a, b, c, d] \<and> a \<in> {CHR ''t'', CHR ''T''} \<and> b \<in> {CHR ''r'', CHR ''R''} \<and>
      c \<in> {CHR ''u'', CHR ''U''} \<and> d \<in> {CHR ''e'', CHR ''E''})"
proof
  assume "map lower_ascii v = ''true''"
  then obtain a b c d where "v = [a, b, c, d]" "lower_ascii a = CHR ''t''" "lower_ascii b = CHR ''r''"
      "lower_ascii c = CHR ''u''" "lower_ascii d = CHR ''e''"
    by (auto simp only: map_eq_Cons_conv map_is_Nil_conv)
  then show "\<exists>a b c d. v = [a, b, c, d] \<and> a \<in> {CHR ''t'', CHR ''T''} \<and> b \<in> {CHR ''r'', CHR ''R''} \<and>
      c \<in> {CHR ''u'', CHR ''U''} \<and> d \<in> {CHR ''e'', CHR ''E''}"
    by (simp only: lower_ascii_true_letters) blast
next
  assume "\<exists>a b c d. v = [a, b, c, d] \<and> a \<in> {CHR ''t'', CHR ''T''} \<and> b \<in> {CHR ''r'', CHR ''R''} \<and>
      c \<in> {CHR ''u'', CHR ''U''} \<and> d \<in> {CHR ''e'', CHR ''E''}"
  then show "map lower_ascii v = ''true''"
    by (auto simp del: insert_iff simp: lower_ascii_true_letters [symmetric])
qed

subsection \<open>Properties\<close>

text \<open>
  C25. \<open>TEST_MODE\<close> is on exactly when the value in effect is \<open>true\<close> in some letter
  case: the value in effect is the shell's when the shell sets the variable (the
  \<open>.env\<close> file does not override it), otherwise the file's; an unset variable defaults
  to \<open>False\<close>, and the value is not stripped, so \<open>" true"\<close>, \<open>1\<close> or \<open>yes\<close> leave it off.
\<close>

theorem load_config_test_mode_value:
  "TEST_MODE (load_config (load_dotenv os_env dotenv)) \<longleftrightarrow>
   (\<exists>a b c d. (case os_env ''TEST_MODE'' of None \<Rightarrow> dotenv ''TEST_MODE'' | Some v \<Rightarrow> Some v) = Some [a, b, c, d] \<and>
      a \<in> {CHR ''t'', CHR ''T''} \<and> b \<in> {CHR ''r'', CHR ''R''} \<and>
      c \<in> {CHR ''u'', CHR ''U''} \<and> d \<in> {CHR ''e'', CHR ''E''})"
proof -
  have env: "load_dotenv os_env dotenv ''TEST_MODE'' =
             (case os_env ''TEST_MODE'' of None \<Rightarrow> dotenv ''TEST_MODE'' | Some v \<Rightarrow> Some v)"
    by (simp add: load_dotenv_def map_add_def split: option.split)
  show ?thesis
  proof (cases "load_dotenv os_env dotenv ''TEST_MODE''")
    case None
    then show ?thesis
      unfolding env [symmetric] by (simp add: load_config_def parse_test_mode_def getenv_def map_lower_ascii_true)
  next
    case (Some v)
    then show ?thesis
      unfolding env [symmetric] by (simp add: load_config_def parse_test_mode_def getenv_def map_lower_ascii_true)
  qed
qed

end
