(* ===== verification/Scheduler.thy ===== *)
theory Scheduler
  imports Cycle Config
begin

text \<open>
  The process: the check interval (\<open>src/bot.py\<close> line 16), the
  \<open>/start\<close> handler (lines 24-25), \<open>test_message\<close> (lines 28-33) and \<open>main\<close> (lines 98-115).
  \<open>main\<close> is a step relation over process states: a phase (where in \<open>main\<close> the process
  is) and the trace of effects so far. The Telegram library's start-up (\<open>build\<close>,
  \<open>initialize\<close>, \<open>start\<close>, \<open>start_polling\<close>) is one outcome of the environment; cycle \<open>n\<close>
  sees the exchange and chat \<open>cycle_world env n\<close>. A \<open>/start\<close> command may be answered at
  any point where the event loop waits (after polling has started, before \<open>main\<close> ends); the
  effects of one \<open>check_symbols\<close> call are one step, so a reply is placed between cycles.
\<close>

definition CHECK_INTERVAL :: nat where
  "CHECK_INTERVAL = 60"

subsection \<open>Texts\<close>

text \<open>U+2705, U+2019, U+1F680, U+1F9EA and the Turkish letters of the messages, in UTF-8.\<close>

definition CHECK_MARK :: string where
  "CHECK_MARK = [CHR 0xE2, CHR 0x9C, CHR 0x85]"

definition RSQUO :: string where
  "RSQUO = [CHR 0xE2, CHR 0x80, CHR 0x99]"

definition ROCKET :: string where
  "ROCKET = [CHR 0xF0, CHR 0x9F, CHR 0x9A, CHR 0x80]"

definition TEST_TUBE :: string where
  "TEST_TUBE = [CHR 0xF0, CHR 0x9F, CHR 0xA7, CHR 0xAA]"

definition DOTLESS_I :: string where
  "DOTLESS_I = [CHR 0xC4, CHR 0xB1]"

definition C_CEDILLA :: string where
  "C_CEDILLA = [CHR 0xC3, CHR 0xA7]"

definition O_UMLAUT :: string where
  "O_UMLAUT = [CHR 0xC3, CHR 0xB6]"

text \<open>\<open>"\<checkmark> Funding & RSI Bot aktif! Bildirimleri buradan alacaks\<i>n\<i>z."\<close> (line 25).\<close>

definition START_REPLY :: string where
  "START_REPLY = CHECK_MARK @ '' Funding & RSI Bot aktif! Bildirimleri buradan alacaks'' @ DOTLESS_I @
     ''n'' @ DOTLESS_I @ ''z.''"

definition TEST_TEXT :: string where
  "TEST_TEXT = CHECK_MARK @ '' Test mesaj'' @ DOTLESS_I @ '': Bot Telegram'' @ RSQUO @ ''a mesaj atabiliyor!''"

definition TEST_SENT_LINE :: string where
  "TEST_SENT_LINE = ''Telegram test mesaj'' @ DOTLESS_I @ '' g'' @ O_UMLAUT @ ''nderildi.''"

text \<open>\<open>print("Telegram mesaj hatas\<i>:", e)\<close>: the two arguments joined by a space.\<close>

definition test_error_line :: "py_exc \<Rightarrow> string" where
  "test_error_line e = ''Telegram mesaj hatas'' @ DOTLESS_I @ '':'' @ CHR '' '' # exc_str e"

definition BANNER :: string where
  "BANNER = ROCKET @ '' Bot aktif, /start yazabilirsiniz Telegram'' @ RSQUO @ ''da!''"

definition TEST_BANNER :: string where
  "TEST_BANNER = TEST_TUBE @ '' Test modu a'' @ C_CEDILLA @ DOTLESS_I @ ''k: yaln'' @ DOTLESS_I @
     ''zca bir kez veri '' @ C_CEDILLA @ ''ekilecek...''"

subsection \<open>Handlers\<close>

text \<open>\<open>test_message\<close>: send, then print the confirmation; any error is caught and printed.\<close>

definition test_message :: "(string option \<Rightarrow> string \<Rightarrow> string + unit) \<Rightarrow> string option \<Rightarrow> event list" where
  "test_message send chat =
     (case send chat TEST_TEXT of
        Inr _ \<Rightarrow> [Sent TEST_TEXT, Print TEST_SENT_LINE]
      | Inl m \<Rightarrow> [Print (test_error_line (TelegramError m))])"

text \<open>The \<open>start\<close> handler's effect.\<close>

definition start :: "event list" where
  "start = [Reply START_REPLY]"

subsection \<open>The process\<close>

record env =
  tg_boot :: "string option \<Rightarrow> string + unit"
  test_send :: "string option \<Rightarrow> string \<Rightarrow> string + unit"
  cycle_world :: "nat \<Rightarrow> world"

text \<open>
  \<open>Boot\<close>: before line 99; \<open>Ready\<close>: after \<open>test_message\<close> (line 107); \<open>Checking n\<close>:
  about to run the \<open>n\<close>-th call of \<open>check_symbols\<close> (from 0); \<open>Sleeping n\<close>: cycle \<open>n\<close>
  ended, before \<open>asyncio.sleep(CHECK_INTERVAL)\<close>; \<open>Finished\<close>: \<open>main\<close> returned;
  \<open>Crashed e\<close>: \<open>main\<close> raised \<open>e\<close>, which ends \<open>asyncio.run\<close> and the process.
\<close>

datatype phase = Boot | Ready | Checking nat | Sleeping nat | Finished | Crashed py_exc

record proc =
  pc :: phase
  out :: "event list"

text \<open>Phases in which the event loop can dispatch a \<open>/start\<close> update.\<close>

fun polling :: "phase \<Rightarrow> bool" where
  "polling Ready = True"
| "polling (Checking _) = True"
| "polling (Sleeping _) = True"
| "polling _ = False"

definition init_proc :: proc where
  "init_proc = \<lparr>pc = Boot, out = []\<rparr>"

inductive main_step :: "env \<Rightarrow> config \<Rightarrow> proc \<Rightarrow> proc \<Rightarrow> bool" for env cfg where
  boot_fail: "pc p = Boot \<Longrightarrow> tg_boot env (TOKEN cfg) = Inl m \<Longrightarrow>
    main_step env cfg p (p\<lparr>pc := Crashed (TelegramError m)\<rparr>)"
| boot_ok: "pc p = Boot \<Longrightarrow> tg_boot env (TOKEN cfg) = Inr () \<Longrightarrow>
    main_step env cfg p \<lparr>pc = Ready, out = out p @ Print BANNER # test_message (test_send env) (CHAT_ID cfg)\<rparr>"
| test_branch: "pc p = Ready \<Longrightarrow> TEST_MODE cfg \<Longrightarrow>
    main_step env cfg p \<lparr>pc = Checking 0, out = out p @ [Print TEST_BANNER]\<rparr>"
| loop_branch: "pc p = Ready \<Longrightarrow> \<not> TEST_MODE cfg \<Longrightarrow> main_step env cfg p (p\<lparr>pc := Checking 0\<rparr>)"
| cycle_done: "pc p = Checking n \<Longrightarrow> check_symbols (cycle_world env n) (CHAT_ID cfg) = (None, evs) \<Longrightarrow>
    main_step env cfg p \<lparr>pc = (if TEST_MODE cfg then Finished else Sleeping n), out = out p @ evs\<rparr>"
| cycle_crash: "pc p = Checking n \<Longrightarrow> check_symbols (cycle_world env n) (CHAT_ID cfg) = (Some e, evs) \<Longrightarrow>
    main_step env cfg p \<lparr>pc = Crashed e, out = out p @ evs\<rparr>"
| wake: "pc p = Sleeping n \<Longrightarrow>
    main_step env cfg p \<lparr>pc = Checking (Suc n), out = out p @ [Sleep CHECK_INTERVAL]\<rparr>"
| start_cmd: "polling (pc p) \<Longrightarrow> main_step env cfg p (p\<lparr>out := out p @ start\<rparr>)"

text \<open>\<open>main_step\<close> is executable: the successors of a state, for a given environment and configuration.\<close>

code_pred (modes: i \<Rightarrow> i \<Rightarrow> i \<Rightarrow> o \<Rightarrow> bool) main_step .

inductive reach :: "env \<Rightarrow> config \<Rightarrow> proc \<Rightarrow> bool" for env cfg where
  init: "reach env cfg init_proc"
| step: "reach env cfg p \<Longrightarrow> main_step env cfg p q \<Longrightarrow> reach env cfg q"

subsection \<open>Abstract view\<close>

text \<open>Cycle \<open>i\<close> ends without an uncaught exception.\<close>

definition cycle_ok :: "env \<Rightarrow> config \<Rightarrow> nat \<Rightarrow> bool" where
  "cycle_ok env cfg i = (fst (check_symbols (cycle_world env i) (CHAT_ID cfg)) = None)"

text \<open>What \<open>main\<close> prints and sends before its first cycle, when the start-up succeeds.\<close>

definition boot_trace :: "env \<Rightarrow> config \<Rightarrow> event list" where
  "boot_trace env cfg = Print BANNER # test_message (test_send env) (CHAT_ID cfg) @
     (if TEST_MODE cfg then [Print TEST_BANNER] else [])"

text \<open>The effects of the first \<open>n\<close> cycles of the loop, each followed by its sleep.\<close>

definition cycles_trace :: "env \<Rightarrow> config \<Rightarrow> nat \<Rightarrow> event list" where
  "cycles_trace env cfg n =
     concat (map (\<lambda>i. snd (check_symbols (cycle_world env i) (CHAT_ID cfg)) @ [Sleep CHECK_INTERVAL]) [0..<n])"

text \<open>The invariant of \<open>main\<close>: a cycle runs only after error-free earlier cycles; test mode runs one.\<close>

fun main_inv :: "env \<Rightarrow> config \<Rightarrow> phase \<Rightarrow> bool" where
  "main_inv env cfg (Checking m) = ((\<forall>i<m. cycle_ok env cfg i) \<and> (TEST_MODE cfg \<longrightarrow> m = 0))"
| "main_inv env cfg (Sleeping m) = ((\<forall>i\<le>m. cycle_ok env cfg i) \<and> \<not> TEST_MODE cfg)"
| "main_inv env cfg Finished = (TEST_MODE cfg \<and> cycle_ok env cfg 0)"
| "main_inv env cfg _ = True"

text \<open>
  The specification's scheduler (section 4.4): in loop mode a state counting the completed
  passes; in single-shot mode a state recording whether its one pass is done. A pass is its
  only step. \<open>sched_abs\<close> maps a phase of \<open>main\<close> to the specification's state; a crashed
  process has none, since the specification has no crash.
\<close>

datatype sched_spec = RUNNING_LOOP nat | RUNNING_ONCE bool

inductive sched_spec_step :: "sched_spec \<Rightarrow> sched_spec \<Rightarrow> bool" where
  loop_pass: "sched_spec_step (RUNNING_LOOP n) (RUNNING_LOOP (Suc n))"
| once_pass: "sched_spec_step (RUNNING_ONCE False) (RUNNING_ONCE True)"

code_pred sched_spec_step .

fun sched_abs :: "config \<Rightarrow> phase \<Rightarrow> sched_spec option" where
  "sched_abs cfg (Checking n) = Some (if TEST_MODE cfg then RUNNING_ONCE False else RUNNING_LOOP n)"
| "sched_abs cfg (Sleeping n) = Some (RUNNING_LOOP (Suc n))"
| "sched_abs cfg Finished = Some (RUNNING_ONCE True)"
| "sched_abs cfg (Crashed e) = None"
| "sched_abs cfg _ = Some (if TEST_MODE cfg then RUNNING_ONCE False else RUNNING_LOOP 0)"

text \<open>
  The termination measure of single-shot mode: the steps of \<open>main\<close> left until it returns
  (start-up, branch, the one cycle).
\<close>

fun test_rank :: "phase \<Rightarrow> nat" where
  "test_rank Boot = 3"
| "test_rank Ready = 2"
| "test_rank (Checking _) = 1"
| "test_rank _ = 0"

text \<open>The steps that move \<open>main\<close> on: every step from a reachable state but a \<open>/start\<close> reply.\<close>

definition progress_step :: "env \<Rightarrow> config \<Rightarrow> (proc \<times> proc) set" where
  "progress_step env cfg = {(q, p). reach env cfg p \<and> main_step env cfg p q \<and> pc q \<noteq> pc p}"

subsection \<open>Test snapshots\<close>

definition empty_universe :: http where
  "empty_universe u = Inr (JObj [(''symbols'', JArr [])])"

definition quiet_world :: world where
  "quiet_world = \<lparr>http_get = empty_universe, tg_send = (\<lambda>_ _. Inr ())\<rparr>"

definition offline_world :: world where
  "offline_world = \<lparr>http_get = (\<lambda>_. Inl ''Cannot connect to host fapi.binance.com:443''), tg_send = (\<lambda>_ _. Inr ())\<rparr>"

definition env_quiet :: env where
  "env_quiet = \<lparr>tg_boot = (\<lambda>_. Inr ()), test_send = (\<lambda>_ _. Inr ()), cycle_world = (\<lambda>_. quiet_world)\<rparr>"

definition env_offline :: env where
  "env_offline = \<lparr>tg_boot = (\<lambda>_. Inr ()), test_send = (\<lambda>_ _. Inl ''Chat not found''), cycle_world = (\<lambda>_. offline_world)\<rparr>"

definition env_no_token :: env where
  "env_no_token = \<lparr>tg_boot = (\<lambda>_. Inl ''You must pass the token you received from https://t.me/Botfather!''),
     test_send = (\<lambda>_ _. Inr ()), cycle_world = (\<lambda>_. quiet_world)\<rparr>"

definition cfg_test :: config where
  "cfg_test = \<lparr>TOKEN = Some ''123:abc'', CHAT_ID = Some ''-100123'', TEST_MODE = True\<rparr>"

definition cfg_loop :: config where
  "cfg_loop = \<lparr>TOKEN = Some ''123:abc'', CHAT_ID = Some ''-100123'', TEST_MODE = False\<rparr>"

subsection \<open>Lemmas\<close>

lemma reach_main_inv: "reach env cfg p \<Longrightarrow> main_inv env cfg (pc p)"
proof (induction rule: reach.induct)
  case init
  then show ?case by (simp add: init_proc_def)
next
  case (step p q)
  from step.hyps(2) step.IH show ?case
    by (cases rule: main_step.cases) (auto simp: cycle_ok_def less_Suc_eq le_less)
qed

lemma no_step_Finished: "main_step env cfg p q \<Longrightarrow> pc p \<noteq> Finished"
  by (cases rule: main_step.cases) auto

lemma no_step_Crashed: "main_step env cfg p q \<Longrightarrow> pc p \<noteq> Crashed e"
  by (cases rule: main_step.cases) auto

lemma reach_Ready:
  assumes "tg_boot env (TOKEN cfg) = Inr ()"
  shows "reach env cfg \<lparr>pc = Ready, out = Print BANNER # test_message (test_send env) (CHAT_ID cfg)\<rparr>"
  using reach.step [OF reach.init main_step.boot_ok [of init_proc]] assms by (simp add: init_proc_def)

lemma reach_Checking_0:
  assumes "tg_boot env (TOKEN cfg) = Inr ()"
  shows "reach env cfg \<lparr>pc = Checking 0, out = boot_trace env cfg\<rparr>"
proof (cases "TEST_MODE cfg")
  case True
  then show ?thesis
    using reach.step [OF reach_Ready [OF assms] main_step.test_branch] by (simp add: boot_trace_def)
next
  case False
  then show ?thesis
    using reach.step [OF reach_Ready [OF assms] main_step.loop_branch] by (simp add: boot_trace_def)
qed

lemma reach_next_cycle:
  assumes "reach env cfg \<lparr>pc = Checking n, out = t\<rparr>" and "\<not> TEST_MODE cfg" and "cycle_ok env cfg n"
  shows "reach env cfg \<lparr>pc = Checking (Suc n), out = t @ snd (check_symbols (cycle_world env n) (CHAT_ID cfg)) @
    [Sleep CHECK_INTERVAL]\<rparr>"
proof -
  let ?r = "check_symbols (cycle_world env n) (CHAT_ID cfg)"
  have r: "?r = (None, snd ?r)" using assms(3) by (simp add: cycle_ok_def prod_eq_iff)
  have "reach env cfg \<lparr>pc = Sleeping n, out = t @ snd ?r\<rparr>"
    using reach.step [OF assms(1) main_step.cycle_done [OF _ r]] assms(2) by simp
  from reach.step [OF this main_step.wake] show ?thesis by simp
qed

lemma check_symbols_quiet: "check_symbols quiet_world chat = (None, [])"
proof -
  have "dict_get [(''symbols'', JArr [])] ''symbols'' = Some (JArr [])" by (simp add: dict_get_def)
  then show ?thesis
    by (simp add: quiet_world_def empty_universe_def check_symbols_def get_all_symbols_def http_json_def)
qed

lemma cycles_trace_Suc:
  "cycles_trace env cfg (Suc n) =
     cycles_trace env cfg n @ snd (check_symbols (cycle_world env n) (CHAT_ID cfg)) @ [Sleep CHECK_INTERVAL]"
  by (simp add: cycles_trace_def)

subsection \<open>Correctness of the process\<close>

text \<open>
  C17. In test mode the process runs at most one cycle: it never sleeps and never starts a
  second call of \<open>check_symbols\<close>.
\<close>

theorem test_mode_single_cycle:
  assumes "reach env cfg p" and "TEST_MODE cfg"
  shows "pc p \<noteq> Checking (Suc n) \<and> pc p \<noteq> Sleeping n"
  using reach_main_inv [OF assms(1)] assms(2) by auto

theorem test_mode_single_cycle_witness:
  "reach env_quiet cfg_test \<lparr>pc = Checking 0, out = boot_trace env_quiet cfg_test\<rparr> \<and> TEST_MODE cfg_test \<and>
   pc \<lparr>pc = Checking 0, out = boot_trace env_quiet cfg_test\<rparr> \<noteq> Checking (Suc 0) \<and>
   pc \<lparr>pc = Checking 0, out = boot_trace env_quiet cfg_test\<rparr> \<noteq> Sleeping 0"
proof -
  have r: "reach env_quiet cfg_test \<lparr>pc = Checking 0, out = boot_trace env_quiet cfg_test\<rparr>"
    by (rule reach_Checking_0) (simp add: env_quiet_def)
  have t: "TEST_MODE cfg_test" by (simp add: cfg_test_def)
  from r t test_mode_single_cycle [OF r t, of 0] show ?thesis by simp
qed

text \<open>
  C18. In test mode, when the start-up and the one cycle succeed, \<open>main\<close> returns after
  the banner, the test message, the test-mode line and the cycle's effects, and nothing
  happens after that (no further \<open>/start\<close> reply, no cycle).
\<close>

theorem test_mode_finishes:
  assumes "TEST_MODE cfg" and "tg_boot env (TOKEN cfg) = Inr ()"
    and "check_symbols (cycle_world env 0) (CHAT_ID cfg) = (None, evs)"
  shows "reach env cfg \<lparr>pc = Finished, out = boot_trace env cfg @ evs\<rparr> \<and>
         (\<forall>q. \<not> main_step env cfg \<lparr>pc = Finished, out = boot_trace env cfg @ evs\<rparr> q)"
proof
  show "reach env cfg \<lparr>pc = Finished, out = boot_trace env cfg @ evs\<rparr>"
    using reach.step [OF reach_Checking_0 [OF assms(2)] main_step.cycle_done [OF _ assms(3)]] assms(1)
    by simp
  show "\<forall>q. \<not> main_step env cfg \<lparr>pc = Finished, out = boot_trace env cfg @ evs\<rparr> q"
    using no_step_Finished by fastforce
qed

theorem test_mode_finishes_witness:
  "reach env_quiet cfg_test \<lparr>pc = Finished, out = boot_trace env_quiet cfg_test @ []\<rparr> \<and>
   (\<forall>q. \<not> main_step env_quiet cfg_test \<lparr>pc = Finished, out = boot_trace env_quiet cfg_test @ []\<rparr> q)"
proof (rule test_mode_finishes)
  show "TEST_MODE cfg_test" by (simp add: cfg_test_def)
  show "tg_boot env_quiet (TOKEN cfg_test) = Inr ()" by (simp add: env_quiet_def)
  have "dict_get [(''symbols'', JArr [])] ''symbols'' = Some (JArr [])" by (simp add: dict_get_def)
  then show "check_symbols (cycle_world env_quiet 0) (CHAT_ID cfg_test) = (None, [])"
    by (simp add: env_quiet_def quiet_world_def empty_universe_def check_symbols_def get_all_symbols_def
        http_json_def)
qed

text \<open>
  C19. Liveness of the loop: outside test mode, when the start-up succeeds and the first
  \<open>n\<close> cycles end without error, the process reaches the start of cycle \<open>n\<close>, having
  produced exactly the boot effects, then each cycle's effects followed by a 60 s sleep.
\<close>

theorem loop_mode_cycles:
  assumes "\<not> TEST_MODE cfg" and "tg_boot env (TOKEN cfg) = Inr ()" and "\<forall>i<n. cycle_ok env cfg i"
  shows "reach env cfg \<lparr>pc = Checking n, out = boot_trace env cfg @ cycles_trace env cfg n\<rparr>"
  using assms(3)
proof (induction n)
  case 0
  then show ?case using reach_Checking_0 [OF assms(2)] by (simp add: cycles_trace_def)
next
  case (Suc n)
  then have "reach env cfg \<lparr>pc = Checking n, out = boot_trace env cfg @ cycles_trace env cfg n\<rparr>"
    and "cycle_ok env cfg n" by simp_all
  from reach_next_cycle [OF this(1) assms(1) this(2)] show ?case by (simp add: cycles_trace_Suc)
qed

theorem loop_mode_cycles_witness:
  "reach env_quiet cfg_loop \<lparr>pc = Checking 3, out = boot_trace env_quiet cfg_loop @ cycles_trace env_quiet cfg_loop 3\<rparr>"
proof (rule loop_mode_cycles)
  show "\<not> TEST_MODE cfg_loop" by (simp add: cfg_loop_def)
  show "tg_boot env_quiet (TOKEN cfg_loop) = Inr ()" by (simp add: env_quiet_def)
  have "dict_get [(''symbols'', JArr [])] ''symbols'' = Some (JArr [])" by (simp add: dict_get_def)
  then show "\<forall>i<3. cycle_ok env_quiet cfg_loop i"
    by (simp add: cycle_ok_def env_quiet_def quiet_world_def empty_universe_def check_symbols_def
        get_all_symbols_def http_json_def)
qed

text \<open>C20. Outside test mode \<open>main\<close> never returns: no reachable state is finished.\<close>

theorem loop_mode_never_finishes:
  assumes "reach env cfg p" and "\<not> TEST_MODE cfg"
  shows "pc p \<noteq> Finished"
  using reach_main_inv [OF assms(1)] assms(2) by auto

theorem loop_mode_never_finishes_witness:
  "reach env_quiet cfg_loop \<lparr>pc = Checking 0, out = boot_trace env_quiet cfg_loop\<rparr> \<and> \<not> TEST_MODE cfg_loop \<and>
   pc \<lparr>pc = Checking 0, out = boot_trace env_quiet cfg_loop\<rparr> \<noteq> Finished"
proof -
  have r: "reach env_quiet cfg_loop \<lparr>pc = Checking 0, out = boot_trace env_quiet cfg_loop\<rparr>"
    by (rule reach_Checking_0) (simp add: env_quiet_def)
  have t: "\<not> TEST_MODE cfg_loop" by (simp add: cfg_loop_def)
  from r t loop_mode_never_finishes [OF r t] show ?thesis by simp
qed

text \<open>
  C21. One failed cycle ends the bot: once cycle \<open>i\<close> raises (the exchange unreachable, an
  unexpected directory reply, a failed delivery), no cycle after \<open>i\<close> is ever started.
\<close>

theorem cycle_error_stops:
  assumes "reach env cfg p" and "\<not> cycle_ok env cfg i" and "pc p = Checking m"
  shows "m \<le> i"
proof -
  have "\<forall>j<m. cycle_ok env cfg j" using reach_main_inv [OF assms(1)] assms(3) by simp
  with assms(2) show ?thesis using not_less by blast
qed

theorem cycle_error_stops_witness:
  "reach env_offline cfg_loop \<lparr>pc = Checking 0, out = boot_trace env_offline cfg_loop\<rparr> \<and>
   \<not> cycle_ok env_offline cfg_loop 0 \<and> pc \<lparr>pc = Checking 0, out = boot_trace env_offline cfg_loop\<rparr> = Checking 0 \<and>
   (0::nat) \<le> 0"
proof -
  have r: "reach env_offline cfg_loop \<lparr>pc = Checking 0, out = boot_trace env_offline cfg_loop\<rparr>"
    by (rule reach_Checking_0) (simp add: env_offline_def)
  have c: "\<not> cycle_ok env_offline cfg_loop 0"
    by (simp add: cycle_ok_def env_offline_def offline_world_def check_symbols_def get_all_symbols_def
        http_json_def)
  from r c cycle_error_stops [OF r c, of 0] show ?thesis by simp
qed

text \<open>
  C22. When the symbol universe cannot be fetched, the process does not skip the cycle: the
  only steps are a \<open>/start\<close> reply or the crash with that error, after which nothing runs.
\<close>

theorem universe_failure_crashes:
  assumes "pc p = Checking n" and "get_all_symbols (http_get (cycle_world env n)) = Inl e"
  shows "(main_step env cfg p q \<longleftrightarrow> q = \<lparr>pc = Crashed e, out = out p\<rparr> \<or> q = p\<lparr>out := out p @ start\<rparr>) \<and>
         (\<forall>r. \<not> main_step env cfg \<lparr>pc = Crashed e, out = out p\<rparr> r)"
proof -
  have c: "check_symbols (cycle_world env n) (CHAT_ID cfg) = (Some e, [])"
    using assms(2) by (simp add: check_symbols_def)
  have "main_step env cfg p q \<longleftrightarrow> q = \<lparr>pc = Crashed e, out = out p\<rparr> \<or> q = p\<lparr>out := out p @ start\<rparr>"
  proof
    assume "main_step env cfg p q"
    then show "q = \<lparr>pc = Crashed e, out = out p\<rparr> \<or> q = p\<lparr>out := out p @ start\<rparr>"
      using assms(1) c by (cases rule: main_step.cases) auto
  next
    assume "q = \<lparr>pc = Crashed e, out = out p\<rparr> \<or> q = p\<lparr>out := out p @ start\<rparr>"
    then show "main_step env cfg p q"
      using main_step.cycle_crash [OF assms(1) c] main_step.start_cmd [of p] assms(1) by auto
  qed
  moreover have "\<forall>r. \<not> main_step env cfg \<lparr>pc = Crashed e, out = out p\<rparr> r"
    using no_step_Crashed by fastforce
  ultimately show ?thesis by blast
qed

theorem universe_failure_crashes_witness:
  "pc \<lparr>pc = Checking 0, out = []\<rparr> = Checking 0 \<and>
   get_all_symbols (http_get (cycle_world env_offline 0)) = Inl (ClientError ''Cannot connect to host fapi.binance.com:443'') \<and>
   main_step env_offline cfg_loop \<lparr>pc = Checking 0, out = []\<rparr>
     \<lparr>pc = Crashed (ClientError ''Cannot connect to host fapi.binance.com:443''), out = []\<rparr>"
proof -
  have g: "get_all_symbols (http_get (cycle_world env_offline 0)) = Inl (ClientError ''Cannot connect to host fapi.binance.com:443'')"
    by (simp add: env_offline_def offline_world_def get_all_symbols_def http_json_def)
  have p: "pc \<lparr>pc = Checking 0, out = []\<rparr> = Checking 0" by simp
  from p g universe_failure_crashes [OF p g, of cfg_loop
      "\<lparr>pc = Crashed (ClientError ''Cannot connect to host fapi.binance.com:443''), out = []\<rparr>"]
  show ?thesis by simp
qed

text \<open>
  C23. A failed test message does not stop the bot: \<open>test_message\<close> prints the error and
  the process goes on to its first cycle; the chat id is never checked before that.
\<close>

theorem test_message_failure_caught:
  assumes "tg_boot env (TOKEN cfg) = Inr ()" and "test_send env (CHAT_ID cfg) TEST_TEXT = Inl m"
  shows "reach env cfg \<lparr>pc = Checking 0, out = Print BANNER # Print (test_error_line (TelegramError m)) #
           (if TEST_MODE cfg then [Print TEST_BANNER] else [])\<rparr>"
  using reach_Checking_0 [OF assms(1)] assms(2) by (simp add: boot_trace_def test_message_def)

theorem test_message_failure_caught_witness:
  "reach env_offline cfg_loop \<lparr>pc = Checking 0, out = Print BANNER # Print (test_error_line (TelegramError ''Chat not found'')) #
     (if TEST_MODE cfg_loop then [Print TEST_BANNER] else [])\<rparr>"
  by (rule test_message_failure_caught) (simp_all add: env_offline_def)

text \<open>
  C24. When the Telegram start-up fails (for instance \<open>TELEGRAM_TOKEN\<close> unset), the process
  crashes with that error before printing anything, sending anything or running a cycle.
\<close>

theorem boot_failure_silent:
  assumes "tg_boot env (TOKEN cfg) = Inl m" and "reach env cfg p"
  shows "out p = [] \<and> (pc p = Boot \<or> pc p = Crashed (TelegramError m))"
  using assms(2)
proof (induction rule: reach.induct)
  case init
  then show ?case by (simp add: init_proc_def)
next
  case (step p q)
  from step.hyps(2) step.IH assms(1) show ?case by (cases rule: main_step.cases) auto
qed

theorem boot_failure_silent_witness:
  "out init_proc = [] \<and> (pc init_proc = Boot \<or> pc init_proc = Crashed (TelegramError
     ''You must pass the token you received from https://t.me/Botfather!''))"
  using boot_failure_silent [of env_no_token "load_config Map.empty" _ init_proc] reach.init
  by (simp add: env_no_token_def)

text \<open>
  C28. Refinement of the specification's scheduler: \<open>main\<close> starts in the specification's
  initial state for its mode, and every step of a reachable state that does not crash is
  either a stutter (start-up, branching, a \<open>/start\<close> reply, waking) or one pass of the
  specification (a cycle in loop mode; the single pass in single-shot mode).
\<close>

theorem main_refines_sched_spec:
  assumes "reach env cfg p" and "main_step env cfg p q" and "sched_abs cfg (pc q) \<noteq> None"
  shows "sched_abs cfg (pc init_proc) = Some (if TEST_MODE cfg then RUNNING_ONCE False else RUNNING_LOOP 0) \<and>
         (sched_abs cfg (pc q) = sched_abs cfg (pc p) \<or>
          (\<exists>a b. sched_abs cfg (pc p) = Some a \<and> sched_abs cfg (pc q) = Some b \<and> sched_spec_step a b))"
proof
  show "sched_abs cfg (pc init_proc) = Some (if TEST_MODE cfg then RUNNING_ONCE False else RUNNING_LOOP 0)"
    by (simp add: init_proc_def)
  have inv: "main_inv env cfg (pc p)" by (rule reach_main_inv [OF assms(1)])
  from assms(2) show "sched_abs cfg (pc q) = sched_abs cfg (pc p) \<or>
      (\<exists>a b. sched_abs cfg (pc p) = Some a \<and> sched_abs cfg (pc q) = Some b \<and> sched_spec_step a b)"
    using assms(3) inv by (cases rule: main_step.cases) (auto simp: sched_spec_step.simps)
qed

theorem main_refines_sched_spec_witness:
  "sched_abs cfg_test (pc init_proc) = Some (RUNNING_ONCE False) \<and>
   (sched_abs cfg_test Finished = sched_abs cfg_test (Checking 0) \<or>
    (\<exists>a b. sched_abs cfg_test (Checking 0) = Some a \<and> sched_abs cfg_test Finished = Some b \<and> sched_spec_step a b))"
proof -
  have r: "reach env_quiet cfg_test \<lparr>pc = Checking 0, out = boot_trace env_quiet cfg_test\<rparr>"
    by (rule reach_Checking_0) (simp add: env_quiet_def)
  have "check_symbols (cycle_world env_quiet 0) (CHAT_ID cfg_test) = (None, [])"
    by (simp add: env_quiet_def check_symbols_quiet)
  then have s: "main_step env_quiet cfg_test \<lparr>pc = Checking 0, out = boot_trace env_quiet cfg_test\<rparr>
                  \<lparr>pc = Finished, out = boot_trace env_quiet cfg_test @ []\<rparr>"
    using main_step.cycle_done [of "\<lparr>pc = Checking 0, out = boot_trace env_quiet cfg_test\<rparr>" 0 env_quiet cfg_test "[]"]
    by (simp add: cfg_test_def)
  have "sched_abs cfg_test (pc \<lparr>pc = Finished, out = boot_trace env_quiet cfg_test @ []\<rparr>) \<noteq> None" by simp
  from main_refines_sched_spec [OF r s this] show ?thesis by (simp add: cfg_test_def)
qed

text \<open>
  C30. Termination of single-shot mode: in test mode there is no infinite sequence of
  steps that move \<open>main\<close> on; only \<open>/start\<close> replies can repeat, and every other step
  lowers \<open>test_rank\<close> until \<open>main\<close> has returned or crashed.
\<close>

theorem test_mode_terminates:
  assumes "TEST_MODE cfg"
  shows "wf (progress_step env cfg)"
proof (rule wf_subset [OF wf_measure [of "\<lambda>p. test_rank (pc p)"]])
  show "progress_step env cfg \<subseteq> measure (\<lambda>p. test_rank (pc p))"
  proof
    fix x assume "x \<in> progress_step env cfg"
    then obtain p q where x: "x = (q, p)" and r: "reach env cfg p" and s: "main_step env cfg p q"
      and ch: "pc q \<noteq> pc p"
      by (auto simp: progress_step_def)
    from reach_main_inv [OF r] have inv: "main_inv env cfg (pc p)" .
    from s ch inv assms have "test_rank (pc q) < test_rank (pc p)"
      by (cases rule: main_step.cases) auto
    with x show "x \<in> measure (\<lambda>p. test_rank (pc p))" by simp
  qed
qed

theorem test_mode_terminates_witness: "wf (progress_step env_quiet cfg_test)"
  by (rule test_mode_terminates) (simp add: cfg_test_def)

text \<open>
  C31. Non-termination of the loop: outside test mode, when the start-up and every cycle
  succeed, the steps that move \<open>main\<close> on are not well-founded: every checking or sleeping
  state has a successor of the same kind, so the loop never ends.
\<close>

theorem loop_mode_runs_forever:
  assumes "\<not> TEST_MODE cfg" and "tg_boot env (TOKEN cfg) = Inr ()" and "\<forall>i. cycle_ok env cfg i"
  shows "\<not> wf (progress_step env cfg)"
proof
  assume wf: "wf (progress_step env cfg)"
  let ?Q = "{p. reach env cfg p \<and> (\<exists>n. pc p = Checking n \<or> pc p = Sleeping n)}"
  have "\<lparr>pc = Checking 0, out = boot_trace env cfg\<rparr> \<in> ?Q"
    using reach_Checking_0 [OF assms(2)] by simp
  then obtain z where z: "z \<in> ?Q" and min: "\<And>y. (y, z) \<in> progress_step env cfg \<Longrightarrow> y \<notin> ?Q"
    by (rule wfE_min [OF wf]) blast
  from z obtain n where r: "reach env cfg z" and ph: "pc z = Checking n \<or> pc z = Sleeping n" by blast
  show False
  proof (cases "pc z = Checking n")
    case True
    let ?r = "check_symbols (cycle_world env n) (CHAT_ID cfg)"
    have c: "?r = (None, snd ?r)" using assms(3) by (simp add: cycle_ok_def prod_eq_iff)
    let ?y = "\<lparr>pc = Sleeping n, out = out z @ snd ?r\<rparr>"
    have s: "main_step env cfg z ?y" using main_step.cycle_done [OF True c] assms(1) by simp
    have "(?y, z) \<in> progress_step env cfg" using r s True by (simp add: progress_step_def)
    moreover have "reach env cfg ?y" by (rule reach.step [OF r s])
    then have "?y \<in> ?Q" by simp
    ultimately show False using min by blast
  next
    case False
    with ph have sl: "pc z = Sleeping n" by simp
    let ?y = "\<lparr>pc = Checking (Suc n), out = out z @ [Sleep CHECK_INTERVAL]\<rparr>"
    have s: "main_step env cfg z ?y" by (rule main_step.wake [OF sl])
    have "(?y, z) \<in> progress_step env cfg" using r s sl by (simp add: progress_step_def)
    moreover have "reach env cfg ?y" by (rule reach.step [OF r s])
    then have "?y \<in> ?Q" by simp
    ultimately show False using min by blast
  qed
qed

theorem loop_mode_runs_forever_witness: "\<not> wf (progress_step env_quiet cfg_loop)"
proof (rule loop_mode_runs_forever)
  show "\<not> TEST_MODE cfg_loop" by (simp add: cfg_loop_def)
  show "tg_boot env_quiet (TOKEN cfg_loop) = Inr ()" by (simp add: env_quiet_def)
  show "\<forall>i. cycle_ok env_quiet cfg_loop i" by (simp add: cycle_ok_def env_quiet_def check_symbols_quiet)
qed

text \<open>
  C33. Every text the process delivers was printed to the console immediately before it
  was sent (\<open>print(text)\<close> precedes \<open>send_message\<close>), except the test message, which is
  sent first and confirmed by a print afterwards.
\<close>

theorem sent_texts_printed:
  assumes "reach env cfg p"
  shows "printed_before_sent (\<lambda>t. t = TEST_TEXT) None (out p)"
  using assms
proof (induction rule: reach.induct)
  case init
  then show ?case by (simp add: init_proc_def)
next
  case (step p q)
  from step.hyps(2) step.IH show ?case
    by (cases rule: main_step.cases)
       (auto simp: printed_before_sent_append test_message_def start_def
        intro: printed_before_sent_check_symbols split: sum.split)
qed

theorem sent_texts_printed_witness:
  "printed_before_sent (\<lambda>t. t = TEST_TEXT) None (boot_trace env_quiet cfg_test)"
proof -
  have "reach env_quiet cfg_test \<lparr>pc = Checking 0, out = boot_trace env_quiet cfg_test\<rparr>"
    by (rule reach_Checking_0) (simp add: env_quiet_def)
  from sent_texts_printed [OF this] show ?thesis by simp
qed

end
