(* ===== verification/Spec2Isabelle.thy ===== *)
theory Spec2Isabelle
  imports Scheduler
begin

text \<open>
  \<^bold>\<open>A verification model of the funding-rate and RSI notifier (\<open>src/bot.py\<close>).\<close>

  \<^medskip>
  \<^bold>\<open>The program.\<close> \<open>src/bot.py\<close> is one asynchronous Python script. At import it reads
  \<open>TELEGRAM_TOKEN\<close>, \<open>CHAT_ID\<close> and \<open>TEST_MODE\<close> from the environment (lines 9-13). \<open>main\<close>
  (lines 98-115) starts a Telegram bot with a \<open>/start\<close> handler (\<open>start\<close>, lines 24-25),
  prints a banner, sends a test message (\<open>test_message\<close>, lines 28-33), then runs
  \<open>check_symbols\<close> once in test mode, or forever with a 60 s sleep between calls.
  \<open>check_symbols\<close> (lines 77-95) fetches the USDT-quoted trading contracts from Binance
  (\<open>get_all_symbols\<close>, lines 46-50). For each contract it calls \<open>fetch_data\<close> (lines 53-74):
  the latest funding sample, then 100 candles on each of 1m, 5m and 15m, whose closing
  prices go through \<open>calculate_rsi\<close> (lines 36-43, a pandas pipeline). It prints and sends
  to the chat a report for every contract whose data could be fetched. A warning line is
  added when the funding rate and all three indicator values are extreme (lines 85-92).

  \<^medskip>
  \<^bold>\<open>Theories.\<close> Each program part has its own theory; the imports follow the calls.
  \<^item> \<open>Prelude\<close>: the exceptions the code can meet (\<open>py_exc\<close>, with CPython's messages); the
    effect trace (\<open>event\<close>: a print, a delivered message, a \<open>/start\<close> reply, a sleep);
    sequencing of fallible steps (\<open>ebind\<close>, \<open>emap\<close>); Python's dict assignment
    (\<open>dict_set\<close>); decimal rendering; \<open>split_on\<close>; and the trailing window of a list.
    Shared lemmas: the decimal round trip \<open>digits_value_nat_digits\<close> and the window
    lemmas.
  \<^item> \<open>PyFloat\<close>: Python/numpy floats as \<open>pyfloat\<close> (a finite real, \<open>inf\<close>, \<open>-inf\<close>, \<open>nan\<close>),
    with IEEE special-value arithmetic, comparisons that are false on NaN, and
    \<open>format(x, '.Nf')\<close>.
  \<^item> \<open>RSI\<close>: \<open>calculate_rsi\<close> as the composition of the pandas operations it calls.
    \<open>series_diff\<close> is \<open>Series.diff\<close>, \<open>clip_lower\<close>/\<open>clip_upper\<close> are \<open>clip\<close>,
    \<open>rolling_mean\<close> is \<open>rolling(window).mean()\<close> with \<open>min_periods = window\<close> and NaN
    propagation, and \<open>rsi_of_rs\<close> is the element-wise tail of the pipeline. \<open>rsi_ref\<close> is
    the specification's formula (section 4.1). Claims C1-C6.
  \<^item> \<open>PyJson\<close>: what \<open>resp.json()\<close> returns (\<open>json\<close>). It also holds Python subscripting
    and iteration with their exceptions, \<open>float()\<close> of a JSON value (a string parser with
    the overflow limit of binary64), and \<open>pd.to_datetime(x, unit='ms')\<close> with its
    nanosecond bounds. \<open>str\<close> of the values the report prints is there too, down to the
    calendar conversion of a timestamp.
  \<^item> \<open>Signal\<close>: the report text and the alert rule of lines 85-92 (\<open>report_text\<close>,
    byte-exact UTF-8). \<open>classify\<close> is the specification's three-way classification. Claims
    C7, C8, C34.
  \<^item> \<open>Exchange\<close>: \<open>get_all_symbols\<close> and \<open>fetch_data\<close> over an HTTP transport (a URL gives
    decoded JSON or the text of a client error). \<open>fetch_body\<close> is the \<open>try\<close> block and
    \<open>fetch_rsi\<close> its loop over the timeframes. \<open>url_path\<close> and \<open>query_params\<close> decode a
    request URL the way the exchange reads it. Claims C9-C13, C26, C27, C29.
  \<^item> \<open>Cycle\<close>: \<open>check_symbols\<close> over a \<open>world\<close> (the transport and the outcome of each
    \<open>send_message\<close>). It returns the uncaught exception, if any, and the effect trace.
    \<open>check_loop\<close> is its \<open>for\<close> loop. \<open>printed_before_sent\<close> scans a trace for the
    print that precedes each delivery. Claims C14-C16, C32.
  \<^item> \<open>Config\<close>: \<open>load_dotenv\<close> (the \<open>.env\<close> entries under the process environment) and
    the three settings read from it (\<open>load_config\<close>). Claim C25.
  \<^item> \<open>Scheduler\<close>: \<open>start\<close>, \<open>test_message\<close>, and \<open>main\<close>.
    \<open>main\<close> is the inductive step relation \<open>main_step\<close> over \<open>proc\<close> (a \<open>phase\<close>: where
    \<open>main\<close> is; and the trace so far). \<open>reach\<close> is reachability from the initial state of
    \<open>asyncio.run(main())\<close>. \<open>sched_spec\<close> is the specification's scheduler
    (section 4.4), and \<open>sched_abs\<close> maps a phase to its state. Claims C17-C24, C28, C30,
    C31, C33.

  \<^medskip>
  \<^bold>\<open>What is proved.\<close>
  \<^item> Equivalence (C1): at every index, the pandas pipeline equals the specification's
    formula \<open>rsi_ref\<close>.
  \<^item> The indicator's shape (C2-C6): its range; the NaN warm-up for any input; saturation
    at 100 on rising prices; NaN (not 100) on a flat window; and that the last entry
    depends only on the last \<open>period + 1\<close> prices.
  \<^item> Refinement of the alert rule by the classification (C7), and that a NaN value never
    alerts (C8). The thresholds are strict: a value in [30, 70] or a funding rate of
    exactly 0.5 or -0.5 gives no warning (C34).
  \<^item> The exchange client's behaviour on every path (C9-C13, C26, C27): the universe filter;
    all-or-nothing per symbol; error isolation with the printed line; the success path;
    an error reply in place of a funding sample or of a candle list (C26); and a malformed
    directory entry, which fails the whole universe (C27). The request URLs decode to
    their endpoint and parameters (C29).
  \<^item> One cycle (C14-C16): every fetched symbol's report is delivered, in order, whatever
    its classification; failed symbols are skipped; a failed delivery ends the cycle. A
    null funding time is reported as \<open>Next Funding: None\<close> rather than skipped (C32).
  \<^item> The process (C17-C24): test mode runs one cycle and returns. Loop mode never returns
    and, by induction on \<open>n\<close>, reaches cycle \<open>n\<close> with the exact trace
    (\<open>loop_mode_cycles\<close>). Invariants by rule induction on \<open>reach\<close> (\<open>reach_main_inv\<close>)
    show that a failed cycle is the last one and that a universe failure crashes the
    process. Also covered: the behaviour when the test message or the start-up fails.
    Refinement (C28): every step that does not crash is a stutter or a pass of the
    specification's scheduler. Ordering (C33): in every reachable state each delivered
    text was printed just before it, the test message apart.
  \<^item> The configuration (C25): \<open>TEST_MODE\<close> is on exactly when the value in effect (the
    shell's, else the \<open>.env\<close> file's) is \<open>true\<close> in some letter case, unstripped.

  Every claim with hypotheses has a witness at a concrete snapshot (the \<open>Test snapshots\<close>
  sections), evaluated by \<open>simp\<close> or \<open>code_simp\<close>. Every operation is an executable
  \<open>definition\<close>, \<open>fun\<close> or \<open>primrec\<close>; the step relations \<open>main_step\<close> and
  \<open>sched_spec_step\<close> are made executable with \<open>code_pred\<close> (the successors of a state for
  a given environment and configuration). Only \<open>reach\<close>, which ranges over infinitely
  many runs, is a plain inductive predicate.

  \<^medskip>
  \<^bold>\<open>Loops and termination.\<close> Every loop of the code that ends is structural recursion:
  \<open>select_symbols\<close>, \<open>fetch_rsi\<close>, \<open>check_loop\<close>, and the \<open>map\<close> over indices in
  \<open>rolling_mean\<close>. So all operations are total and no fuel is needed. The only loop
  without an end is \<open>while True\<close> in \<open>main\<close>. It is the step relation; its progress is
  stated as reachability of every cycle (C19), and its non-termination as the absence of
  a finished state (C20) and as the failure of well-foundedness of its progress steps
  (C31). Single-shot mode terminates: its progress steps are well-founded under the
  measure \<open>test_rank\<close> (C30). \<open>/start\<close> replies are left out of both: a user can send
  \<open>/start\<close> forever.

  \<^medskip>
  \<^bold>\<open>Approximations and what is not modelled.\<close>
  \<^item> Finite floats are exact reals: the rounding of binary64 arithmetic, signed zero, and
    pandas' running-sum arithmetic for rolling means are not modelled.
  \<^item> Infinite closing prices (impossible after \<open>float()\<close> of an exchange price below the
    overflow limit) are modelled with IEEE rules, not with pandas' treatment of \<open>inf\<close> in
    rolling windows.
  \<^item> \<open>repr\<close> of floats in exponent notation, non-ASCII whitespace in \<open>float()\<close>, and
    \<open>pd.to_datetime\<close> of lists or dicts are not modelled.
  \<^item> The Telegram library (building the application, polling, \<open>send_message\<close>) and aiohttp
    are environment outcomes (success or an error text). The syntax of the \<open>.env\<close> file
    and its search are the library's I/O: the file is given by its parsed entries.
  \<^item> Within one cycle, the effects of \<open>check_symbols\<close> form one step of \<open>main_step\<close>, and
    the start-up (lines 99-107) is one step too. So a \<open>/start\<close> reply is placed between
    these steps, not between the prints of one cycle or during the test message.
  \<^item> Lines 1-8 (imports) and the comments carry no behaviour. Every other line of
    \<open>src/bot.py\<close> is translated. The Notifier Gateway stays partly modelled: what remains of
    it is the \<open>python-telegram-bot\<close> library, not code of this repository. The Python and
    pandas runtime is modelled only as far as the code's results depend on it (the PyFloat
    and PyJson theories), not as a component of its own.

  \<^medskip>
  \<^bold>\<open>Divergences from \<open>spec.md\<close> found by the model.\<close>
  \<^item> A flat window gives NaN, not the saturation value (\<open>calculate_rsi_flat\<close>).
  \<^item> A NaN indicator (fewer than 15 candles) is reported as \<open>nan\<close> and silences the alert
    (\<open>report_text_nan_no_alert\<close>).
  \<^item> A delivery error ends the cycle (\<open>check_loop_send_failure\<close>). A universe error crashes
    the process instead of skipping the cycle (\<open>universe_failure_crashes\<close>), and no
    later cycle runs (\<open>cycle_error_stops\<close>).
  \<^item> A missing \<open>CHAT_ID\<close> is not rejected at start-up (\<open>test_message_failure_caught\<close>).
  \<^item> A null funding time is reported as \<open>None\<close> instead of skipping the symbol
    (\<open>symbol_report_null_time\<close>). Error logs print \<open>str(e)\<close> only, which hides the
    exchange's own message (\<open>fetch_data_candle_error_object\<close>).
\<close>

end
